theory Spec2Isabelle
  imports Complex_Main "HOL-Library.Log_Nat"
begin

section \<open>Python values and errors\<close>

text \<open>
  The script \<^verbatim>\<open>tools/make_class_power.py\<close> is dynamically typed: an entry of the
  configuration is a string before validation and a string, an int or a float after it,
  and the dictionaries handed to the solver mix all of these. Values are therefore one
  datatype, and every operation that Python would refuse is an error value.
  The semantics is that of Python 3.
\<close>

datatype pyval =
    PStr string
  | PInt int
  | PFloat real
  | PTuple "pyval list"
  | PArray "real list"

datatype pyerr =
    IOError string string
  | ValueError string
  | KeyError string
  | TypeError
  | ZeroDivisionError
  | NameError string
  | EngineError

definition bindE :: "'e + 'a \<Rightarrow> ('a \<Rightarrow> 'e + 'b) \<Rightarrow> 'e + 'b" where
  "bindE m f = (case m of Inl e \<Rightarrow> Inl e | Inr v \<Rightarrow> f v)"

section \<open>Double-precision arithmetic\<close>

text \<open>
  A Python float is an IEEE 754 binary64 number. A finite double is modelled by the real
  number it denotes, and every arithmetic operation rounds its exact result to the nearest
  double, ties to the even significand (\<open>fl\<close>): 53 significant bits, gradual underflow
  below \<open>2 ^ -1022\<close> in steps of \<open>2 ^ -1074\<close>. Infinities, NaN and the sign of zero are
  not represented: the model is that of the script on finite values below the overflow
  threshold.
\<close>

definition pow2 :: "int \<Rightarrow> real" where
  "pow2 p = (if 0 \<le> p then 2 ^ nat p else 1 / 2 ^ nat (- p))"

definition round_half_even :: "real \<Rightarrow> int" where
  "round_half_even y =
     (let f = \<lfloor>y\<rfloor>; d = y - of_int f
      in if d < 1 / 2 then f else if 1 / 2 < d then f + 1 else if even f then f else f + 1)"

text \<open>\<open>ilog2 x\<close> is the binary exponent of a positive \<open>x\<close>: \<open>2 ^ ilog2 x \<le> x < 2 ^ (ilog2 x + 1)\<close>.\<close>

definition ilog2 :: "real \<Rightarrow> int" where
  "ilog2 x = (if 1 \<le> x then bitlen \<lfloor>x\<rfloor> - 1 else - bitlen (\<lceil>1 / x\<rceil> - 1))"

definition fl :: "real \<Rightarrow> real" where
  "fl x = (if x = 0 then 0
           else let p = max (ilog2 \<bar>x\<bar> - 52) (- 1074)
                in of_int (round_half_even (x / pow2 p)) * pow2 p)"

text \<open>\<^verbatim>\<open>math.pi\<close> is the double nearest to \<open>\<pi>\<close>.\<close>

definition math_pi :: real where
  "math_pi = 884279719003555 / 2 ^ 48"

text \<open>The number a value stands for in arithmetic and comparisons, if it is one.\<close>

fun num_of :: "pyval \<Rightarrow> real option" where
  "num_of (PInt n) = Some (of_int n)"
| "num_of (PFloat x) = Some x"
| "num_of _ = None"

text \<open>
  Mixed arithmetic converts the int operand to a double first (\<open>fl (of_int n)\<close>), then
  rounds the result; two ints stay ints; \<^verbatim>\<open>+\<close> concatenates two strings and
  \<^verbatim>\<open>*\<close> repeats a string an int number of times.
\<close>

definition to_double :: "pyval \<Rightarrow> real option" where
  "to_double v = (case v of PInt n \<Rightarrow> Some (fl (of_int n)) | PFloat x \<Rightarrow> Some x | _ \<Rightarrow> None)"

definition py_add :: "pyval \<Rightarrow> pyval \<Rightarrow> pyerr + pyval" where
  "py_add a b =
     (case (a, b) of
        (PInt m, PInt n) \<Rightarrow> Inr (PInt (m + n))
      | (PStr s, PStr t) \<Rightarrow> Inr (PStr (s @ t))
      | _ \<Rightarrow> (case (to_double a, to_double b) of
                (Some x, Some y) \<Rightarrow> Inr (PFloat (fl (x + y)))
              | _ \<Rightarrow> Inl TypeError))"

definition py_sub :: "pyval \<Rightarrow> pyval \<Rightarrow> pyerr + pyval" where
  "py_sub a b =
     (case (a, b) of
        (PInt m, PInt n) \<Rightarrow> Inr (PInt (m - n))
      | _ \<Rightarrow> (case (to_double a, to_double b) of
                (Some x, Some y) \<Rightarrow> Inr (PFloat (fl (x - y)))
              | _ \<Rightarrow> Inl TypeError))"

definition py_mul :: "pyval \<Rightarrow> pyval \<Rightarrow> pyerr + pyval" where
  "py_mul a b =
     (case (a, b) of
        (PInt m, PInt n) \<Rightarrow> Inr (PInt (m * n))
      | (PStr s, PInt n) \<Rightarrow> Inr (PStr (concat (replicate (nat n) s)))
      | (PInt n, PStr s) \<Rightarrow> Inr (PStr (concat (replicate (nat n) s)))
      | _ \<Rightarrow> (case (to_double a, to_double b) of
                (Some x, Some y) \<Rightarrow> Inr (PFloat (fl (x * y)))
              | _ \<Rightarrow> Inl TypeError))"

text \<open>True division \<^verbatim>\<open>/\<close>: always a float, and a zero divisor raises.\<close>

definition py_truediv :: "pyval \<Rightarrow> pyval \<Rightarrow> pyerr + pyval" where
  "py_truediv a b =
     (case (num_of a, num_of b) of
        (Some _, Some _) \<Rightarrow>
          (if num_of b = Some 0 then Inl ZeroDivisionError
           else (case (a, b) of
                   (PInt m, PInt n) \<Rightarrow> Inr (PFloat (fl (of_int m / of_int n)))
                 | _ \<Rightarrow> Inr (PFloat (fl (the (to_double a) / the (to_double b))))))
      | _ \<Rightarrow> Inl TypeError)"

text \<open>\<^verbatim>\<open>v ** 2\<close>, the square taken as correctly rounded.\<close>

definition py_square :: "pyval \<Rightarrow> pyerr + pyval" where
  "py_square v =
     (case v of
        PInt n \<Rightarrow> Inr (PInt (n * n))
      | PFloat x \<Rightarrow> Inr (PFloat (fl (x * x)))
      | _ \<Rightarrow> Inl TypeError)"

text \<open>
  Comparison of a value with a numeric literal: numbers compare by value, anything else
  against a number is a TypeError for the orderings and unequal for \<^verbatim>\<open>==\<close>.
\<close>

definition py_gt :: "pyval \<Rightarrow> real \<Rightarrow> pyerr + bool" where
  "py_gt v c = (case num_of v of None \<Rightarrow> Inl TypeError | Some x \<Rightarrow> Inr (c < x))"

definition py_ge :: "pyval \<Rightarrow> real \<Rightarrow> pyerr + bool" where
  "py_ge v c = (case num_of v of None \<Rightarrow> Inl TypeError | Some x \<Rightarrow> Inr (c \<le> x))"

definition py_lt :: "pyval \<Rightarrow> real \<Rightarrow> pyerr + bool" where
  "py_lt v c = (case num_of v of None \<Rightarrow> Inl TypeError | Some x \<Rightarrow> Inr (x < c))"

definition py_eq_num :: "pyval \<Rightarrow> real \<Rightarrow> bool" where
  "py_eq_num v c = (num_of v = Some c)"

subsection \<open>Formatting\<close>

definition digit_char :: "nat \<Rightarrow> char" where
  "digit_char d = ''0123456789'' ! d"

fun decimal :: "nat \<Rightarrow> string" where
  "decimal n = (if n < 10 then [digit_char n] else decimal (n div 10) @ [digit_char (n mod 10)])"

text \<open>
  \<^verbatim>\<open>'%.2f' % x\<close>: the exact value of the double rounded to two decimals, ties to even,
  with at least one digit before the point.
\<close>

definition format_2f :: "real \<Rightarrow> string" where
  "format_2f x =
     (let n = nat (round_half_even (\<bar>x\<bar> * 100))
      in (if x < 0 then ''-'' else []) @ decimal (n div 100) @ ''.'' @
         [digit_char (n div 10 mod 10), digit_char (n mod 10)])"

definition py_format_2f :: "pyval \<Rightarrow> pyerr + string" where
  "py_format_2f v = (case to_double v of None \<Rightarrow> Inl TypeError | Some x \<Rightarrow> Inr (format_2f x))"

section \<open>The parameter file and its schema\<close>

text \<open>
  ConfigObj holds every entry of the parameter file as a string until it is validated.
  A raw entry is that string together with what Python's \<^verbatim>\<open>int()\<close> and
  \<^verbatim>\<open>float()\<close> make of it (\<open>None\<close> where they raise ValueError).
\<close>

record raw =
  text_of :: string
  as_int :: "int option"
  as_float :: "real option"

definition raw_text :: "string \<Rightarrow> raw" where
  "raw_text s = \<lparr>text_of = s, as_int = None, as_float = None\<rparr>"

definition raw_int :: "string \<Rightarrow> int \<Rightarrow> raw" where
  "raw_int s n = \<lparr>text_of = s, as_int = Some n, as_float = Some (fl (of_int n))\<rparr>"

definition raw_float :: "string \<Rightarrow> real \<Rightarrow> raw" where
  "raw_float s x = \<lparr>text_of = s, as_int = None, as_float = Some x\<rparr>"

type_synonym rawconfig = "string \<rightharpoonup> raw"
type_synonym config = "string \<rightharpoonup> pyval"

datatype kind = KString | KInteger | KFloat

text \<open>A line of the schema: name, check, minimum, maximum, default.\<close>

type_synonym fieldspec = "string \<times> kind \<times> real option \<times> real option \<times> raw option"

definition GenICconfigspec :: "fieldspec list" where
  "GenICconfigspec =
    [(''FileWithInputSpectrum'', KString, None, None, Some (raw_text '''')),
     (''FileWithTransferFunction'', KString, None, None, Some (raw_text '''')),
     (''Ngrid'', KInteger, Some 0, None, None),
     (''BoxSize'', KFloat, Some 0, None, None),
     (''Omega0'', KFloat, Some 0, Some 1, None),
     (''OmegaLambda'', KFloat, Some 0, Some 1, None),
     (''OmegaBaryon'', KFloat, Some 0, Some 1, Some (raw_float ''0.0486'' (fl (486 / 10000)))),
     (''HubbleParam'', KFloat, Some 0, Some 2, None),
     (''Redshift'', KFloat, Some 0, Some 1100, None),
     (''Sigma8'', KFloat, None, None, Some (raw_int ''-1'' (- 1))),
     (''InputPowerRedshift'', KFloat, None, None, Some (raw_int ''-1'' (- 1))),
     (''DifferentTransferFunctions'', KInteger, Some 0, Some 1, Some (raw_int ''1'' 1)),
     (''UnitLength_in_cm'', KFloat, None, None,
        Some (raw_float ''3.085678e21'' (fl (3085678 * 10 ^ 15)))),
     (''Omega_fld'', KFloat, Some 0, Some 1, Some (raw_int ''0'' 0)),
     (''w0_fld'', KFloat, None, None, Some (raw_int ''-1'' (- 1))),
     (''wa_fld'', KFloat, None, None, Some (raw_int ''0'' 0)),
     (''MNue'', KFloat, Some 0, None, Some (raw_int ''0'' 0)),
     (''MNum'', KFloat, Some 0, None, Some (raw_int ''0'' 0)),
     (''MNut'', KFloat, Some 0, None, Some (raw_int ''0'' 0)),
     (''MWDM_Therm'', KFloat, Some 0, None, Some (raw_int ''0'' 0)),
     (''PrimordialIndex'', KFloat, None, None, Some (raw_float ''0.971'' (fl (971 / 1000)))),
     (''PrimordialAmp'', KFloat, None, None, Some (raw_float ''2.215e-9'' (fl (2215 / 10 ^ 12)))),
     (''CMBTemperature'', KFloat, None, None, Some (raw_float ''2.7255'' (fl (27255 / 10000))))]"

text \<open>
  The checks of the validate library: \<^verbatim>\<open>string\<close> accepts any text,
  \<^verbatim>\<open>integer\<close> what \<^verbatim>\<open>int()\<close> parses, \<^verbatim>\<open>float\<close> what
  \<^verbatim>\<open>float()\<close> parses; a value below the minimum or above the maximum is refused
  (both bounds are inclusive).
\<close>

definition in_range :: "real option \<Rightarrow> real option \<Rightarrow> real \<Rightarrow> bool" where
  "in_range mn mx x =
     ((case mn of None \<Rightarrow> True | Some a \<Rightarrow> \<not> x < a) \<and> (case mx of None \<Rightarrow> True | Some b \<Rightarrow> \<not> b < x))"

definition check :: "kind \<Rightarrow> real option \<Rightarrow> real option \<Rightarrow> raw \<Rightarrow> pyval option" where
  "check k mn mx r =
     (case k of
        KString \<Rightarrow> Some (PStr (text_of r))
      | KInteger \<Rightarrow>
          (case as_int r of
             None \<Rightarrow> None
           | Some n \<Rightarrow> if in_range mn mx (of_int n) then Some (PInt n) else None)
      | KFloat \<Rightarrow>
          (case as_float r of
             None \<Rightarrow> None
           | Some x \<Rightarrow> if in_range mn mx x then Some (PFloat x) else None))"

text \<open>
  \<^verbatim>\<open>config.validate(vtor)\<close> walks the schema. An entry that passes its check is
  replaced by the converted value; an absent entry with a default gets the checked
  default; an entry that fails stays the string it was, an absent entry without default
  stays absent, and either is reported as \<open>False\<close> in the result. Nothing is raised.
\<close>

definition checked_entry :: "rawconfig \<Rightarrow> fieldspec \<Rightarrow> pyval option" where
  "checked_entry rc sp =
     (case sp of (name, k, mn, mx, dflt) \<Rightarrow>
        (case (case rc name of Some r \<Rightarrow> Some r | None \<Rightarrow> dflt) of
           None \<Rightarrow> None
         | Some r \<Rightarrow> check k mn mx r))"

definition validate_entry ::
  "rawconfig \<Rightarrow> config \<times> (string \<times> bool) list \<Rightarrow> fieldspec \<Rightarrow> config \<times> (string \<times> bool) list" where
  "validate_entry rc acc sp =
     (case acc of (cfg, out) \<Rightarrow>
        (case checked_entry rc sp of
           None \<Rightarrow> (cfg, out @ [(fst sp, False)])
         | Some v \<Rightarrow> (cfg(fst sp \<mapsto> v), out @ [(fst sp, True)])))"

definition loaded :: "rawconfig \<Rightarrow> config" where
  "loaded rc = (\<lambda>k. map_option (\<lambda>r. PStr (text_of r)) (rc k))"

definition validate :: "rawconfig \<Rightarrow> config \<times> (string \<times> bool) list" where
  "validate rc = foldl (validate_entry rc) (loaded rc, []) GenICconfigspec"

text \<open>A parameter file conforms to the schema when no entry is reported as failed.\<close>

definition schema_ok :: "rawconfig \<Rightarrow> bool" where
  "schema_ok rc = list_all snd (snd (validate rc))"

text \<open>
  A validated configuration: every field of the schema is present with a value of its
  declared type inside its declared range.
\<close>

definition has_kind :: "kind \<Rightarrow> real option \<Rightarrow> real option \<Rightarrow> pyval \<Rightarrow> bool" where
  "has_kind k mn mx v =
     (case (k, v) of
        (KString, PStr s) \<Rightarrow> True
      | (KInteger, PInt n) \<Rightarrow> in_range mn mx (of_int n)
      | (KFloat, PFloat x) \<Rightarrow> in_range mn mx x
      | _ \<Rightarrow> False)"

definition valid_field :: "config \<Rightarrow> fieldspec \<Rightarrow> bool" where
  "valid_field cfg sp =
     (case sp of (name, k, mn, mx, dflt) \<Rightarrow>
        (case cfg name of None \<Rightarrow> False | Some v \<Rightarrow> has_kind k mn mx v))"

definition valid_config :: "config \<Rightarrow> bool" where
  "valid_config cfg = list_all (valid_field cfg) GenICconfigspec"

definition getitem :: "config \<Rightarrow> string \<Rightarrow> pyerr + pyval" where
  "getitem d k = (case d k of None \<Rightarrow> Inl (KeyError k) | Some v \<Rightarrow> Inr v)"

section \<open>Checking the configuration\<close>

text \<open>
  Lines 60 to 67 of \<^verbatim>\<open>_check_genic_config\<close>: each save file named by
  \<open>filekeys\<close> must be given and must not exist, tested on the path as the
  configuration spells it. \<open>ex\<close> is \<^verbatim>\<open>os.path.exists\<close>.
\<close>

definition path_of :: "pyval \<Rightarrow> pyerr + string" where
  "path_of v = (case v of PStr s \<Rightarrow> Inr s | _ \<Rightarrow> Inl TypeError)"

fun check_savefiles :: "(string \<Rightarrow> bool) \<Rightarrow> config \<Rightarrow> string list \<Rightarrow> pyerr + unit" where
  "check_savefiles ex config [] = Inr ()"
| "check_savefiles ex config (ff # rest) =
     (case getitem config ff of
        Inl e \<Rightarrow> Inl e
      | Inr v \<Rightarrow>
          if v = PStr [] then Inl (IOError ''No savefile specified for '' ff)
          else (case path_of v of
                  Inl e \<Rightarrow> Inl e
                | Inr p \<Rightarrow>
                    if ex p then Inl (IOError ''Refusing to write to existing file: '' p)
                    else check_savefiles ex config rest))"

text \<open>Lines 60 to 74, on the configuration as \<^verbatim>\<open>config.validate\<close> left it.\<close>

definition genic_checks :: "(string \<Rightarrow> bool) \<Rightarrow> config \<Rightarrow> pyerr + unit" where
  "genic_checks ex config =
     bindE (getitem config ''DifferentTransferFunctions'') (\<lambda>dtf.
     bindE (check_savefiles ex config
              ([''FileWithInputSpectrum''] @
               (if py_eq_num dtf 1 then [''FileWithTransferFunction''] else []))) (\<lambda>_.
     bindE (getitem config ''MWDM_Therm'') (\<lambda>mwdm.
     bindE (py_gt mwdm 0) (\<lambda>warm.
       if warm
       then Inl (ValueError ''Warm dark matter power spectrum cutoff not yet supported.'')
       else
     bindE (getitem config ''DifferentTransferFunctions'') (\<lambda>dtf'.
       if py_eq_num dtf' 1
       then bindE (getitem config ''InputPowerRedshift'') (\<lambda>ipz.
            bindE (py_ge ipz 0) (\<lambda>rescale.
              if rescale
              then Inl (ValueError ''Rescaling with different transfer functions not supported.'')
              else Inr ()))
       else Inr ())))))"

text \<open>
  \<^verbatim>\<open>_check_genic_config\<close>: the value \<^verbatim>\<open>config.validate\<close> returns is
  dropped (line 59), so the checks run on whatever validation left in the configuration.
  The validated configuration is returned for the caller, which goes on using it.
\<close>

definition check_genic_config :: "(string \<Rightarrow> bool) \<Rightarrow> rawconfig \<Rightarrow> pyerr + config" where
  "check_genic_config ex rc =
     (let config = fst (validate rc)
      in bindE (genic_checks ex config) (\<lambda>_. Inr config))"

section \<open>Cosmology parameters\<close>

text \<open>
  \<^verbatim>\<open>_build_cosmology_params\<close>, lines 79 to 118, operation by operation and in
  Python's order of evaluation. The function overwrites \<^verbatim>\<open>config['OmegaBaryon']\<close>
  in place, so the configuration is returned with the parameters.
\<close>

type_synonym params = "string \<rightharpoonup> pyval"

definition neutrino_block :: "config \<Rightarrow> params \<Rightarrow> pyerr + params" where
  "neutrino_block config gparams =
     bindE (getitem config ''MNue'') (\<lambda>mnue.
     bindE (getitem config ''MNum'') (\<lambda>mnum.
     bindE (getitem config ''MNut'') (\<lambda>mnut.
     bindE (py_format_2f mnue) (\<lambda>se.
     bindE (py_format_2f mnum) (\<lambda>sm.
     bindE (py_format_2f mnut) (\<lambda>st.
       Inr (gparams
             (''m_ncdm'' \<mapsto> PStr (se @ '','' @ sm @ '','' @ st),
              ''N_ncdm'' \<mapsto> PInt 3,
              ''N_ur'' \<mapsto> PFloat (fl (641 / 100000)),
              ''tol_ncdm_newtonian'' \<mapsto> PFloat (fl (1 / 10 ^ 5)),
              ''tol_ncdm_synchronous'' \<mapsto> PFloat (fl (1 / 10 ^ 5)),
              ''tol_ncdm_bg'' \<mapsto> PFloat (fl (1 / 10 ^ 10)),
              ''l_max_ncdm'' \<mapsto> PInt 50,
              ''ncdm_fluid_approximation'' \<mapsto> PInt 3))))))))"

definition amplitude_block :: "config \<Rightarrow> params \<Rightarrow> pyerr + params" where
  "amplitude_block config gparams =
     bindE (getitem config ''Sigma8'') (\<lambda>s8.
     bindE (py_gt s8 0) (\<lambda>norm.
       if norm
       then bindE (getitem config ''Sigma8'') (\<lambda>v. Inr (gparams(''sigma8'' \<mapsto> v)))
       else bindE (getitem config ''PrimordialAmp'') (\<lambda>v. Inr (gparams(''A_s'' \<mapsto> v)))))"

definition build_cosmology_params :: "config \<Rightarrow> pyerr + config \<times> params" where
  "build_cosmology_params config0 =
     bindE (getitem config0 ''HubbleParam'') (\<lambda>h0.
     bindE (getitem config0 ''MNue'') (\<lambda>mnue.
     bindE (getitem config0 ''MNum'') (\<lambda>mnum.
     bindE (py_add mnue mnum) (\<lambda>s1.
     bindE (getitem config0 ''MNut'') (\<lambda>mnut.
     bindE (py_add s1 mnut) (\<lambda>s2.
     bindE (py_truediv s2 (PFloat (fl (9314 / 100)))) (\<lambda>q.
     bindE (py_square h0) (\<lambda>h2.
     bindE (py_truediv q h2) (\<lambda>omeganu.
     bindE (getitem config0 ''OmegaBaryon'') (\<lambda>ob0.
     bindE (py_lt ob0 (fl (1 / 1000))) (\<lambda>small.
     let config = (if small then config0(''OmegaBaryon'' \<mapsto> PFloat (fl (486 / 10000)))
                   else config0) in
     bindE (getitem config ''Omega0'') (\<lambda>om0.
     bindE (getitem config ''OmegaBaryon'') (\<lambda>ob.
     bindE (py_sub om0 ob) (\<lambda>d.
     bindE (py_sub d omeganu) (\<lambda>ocdm.
     bindE (getitem config ''OmegaLambda'') (\<lambda>ol.
     bindE (py_sub (PInt 1) ol) (\<lambda>k1.
     bindE (getitem config ''Omega0'') (\<lambda>om0'.
     bindE (py_sub k1 om0') (\<lambda>omegak.
     bindE (getitem config ''HubbleParam'') (\<lambda>h.
     bindE (getitem config ''OmegaBaryon'') (\<lambda>ob'.
     bindE (getitem config ''PrimordialIndex'') (\<lambda>ns.
     bindE (getitem config ''CMBTemperature'') (\<lambda>tcmb.
     let g0 = [''h'' \<mapsto> h, ''Omega_cdm'' \<mapsto> ocdm, ''Omega_b'' \<mapsto> ob', ''Omega_k'' \<mapsto> omegak,
               ''n_s'' \<mapsto> ns, ''T_cmb'' \<mapsto> tcmb] in
     bindE (getitem config ''Omega_fld'') (\<lambda>ofld.
     let g1 = g0(''Omega_fld'' \<mapsto> ofld) in
     bindE (getitem config ''Omega_fld'') (\<lambda>ofld'.
     bindE (py_gt ofld' 0) (\<lambda>fld.
     bindE (if fld
            then bindE (getitem config ''w0_fld'') (\<lambda>w0.
                 bindE (getitem config ''wa_fld'') (\<lambda>wa.
                   Inr (g1(''w0_fld'' \<mapsto> w0, ''wa_fld'' \<mapsto> wa))))
            else Inr g1) (\<lambda>g2.
     bindE (py_gt omeganu 0) (\<lambda>massive.
     bindE (if massive then neutrino_block config g2
            else Inr (g2(''N_ur'' \<mapsto> PFloat (fl (3046 / 1000))))) (\<lambda>g3.
     bindE (amplitude_block config g3) (\<lambda>g4.
       Inr (config, g4)))))))))))))))))))))))))))))))"

text \<open>
  The typed reading of a validated configuration, and the quantities of lines 80 to 82 in
  double arithmetic: the neutrino density \<^verbatim>\<open>(MNue + MNum + MNut)/93.14/h0**2\<close> and the
  baryon fraction after the substitution below 0.001.
\<close>

definition fnum :: "config \<Rightarrow> string \<Rightarrow> real" where
  "fnum cfg k = (case cfg k of Some (PFloat x) \<Rightarrow> x | _ \<Rightarrow> 0)"

definition hubble_sq :: "config \<Rightarrow> real" where
  "hubble_sq cfg = fl (fnum cfg ''HubbleParam'' * fnum cfg ''HubbleParam'')"

definition omeganu_of :: "config \<Rightarrow> real" where
  "omeganu_of cfg =
     fl (fl (fl (fl (fnum cfg ''MNue'' + fnum cfg ''MNum'') + fnum cfg ''MNut'') / fl (9314 / 100))
           / hubble_sq cfg)"

definition baryon_of :: "config \<Rightarrow> real" where
  "baryon_of cfg =
     (if fnum cfg ''OmegaBaryon'' < fl (1 / 1000) then fl (486 / 10000)
      else fnum cfg ''OmegaBaryon'')"

section \<open>Solver parameters\<close>

text \<open>
  Lines 141 to 169 of \<^verbatim>\<open>make_class_power\<close>: the dictionary handed to the engine.
  \<open>extraz\<close> is \<open>None\<close> when no extra redshift is given, \<open>external_pk\<close> is \<open>None\<close>
  when no external primordial spectrum is given. The primary redshift is returned with the
  dictionary, since the output stage needs it.
\<close>

definition precision_params :: params where
  "precision_params = map_of
     [(''tol_background_integration'', PFloat (fl (1 / 10 ^ 9))),
      (''tol_perturb_integration'', PFloat (fl (1 / 10 ^ 7))),
      (''tol_thermo_integration'', PFloat (fl (1 / 10 ^ 5))),
      (''k_per_decade_for_pk'', PInt 20),
      (''k_per_decade_for_bao'', PInt 200),
      (''neglect_CMB_sources_below_visibility'', PFloat (fl (1 / 10 ^ 30))),
      (''transfer_neglect_late_source'', PFloat 3000),
      (''l_max_g'', PInt 50),
      (''l_max_ur'', PInt 150)]"

definition verb_params :: params where
  "verb_params = map_of
     [(''input_verbose'', PInt 1), (''background_verbose'', PInt 1),
      (''thermodynamics_verbose'', PInt 1), (''perturbations_verbose'', PInt 1),
      (''transfer_verbose'', PInt 1), (''primordial_verbose'', PInt 1),
      (''spectra_verbose'', PInt 1), (''nonlinear_verbose'', PInt 1),
      (''lensing_verbose'', PInt 1), (''output_verbose'', PInt 1)]"

definition MPC_in_cm :: real where
  "MPC_in_cm = fl (3085678 * 10 ^ 18)"

text \<open>Line 157: the box side in Mpc.\<close>

definition boxmpc_of :: "config \<Rightarrow> pyerr + pyval" where
  "boxmpc_of config =
     bindE (getitem config ''BoxSize'') (\<lambda>box.
     bindE (py_truediv box (PFloat MPC_in_cm)) (\<lambda>b1.
     bindE (getitem config ''UnitLength_in_cm'') (\<lambda>ul.
       py_mul b1 ul)))"

text \<open>Line 158: the largest wavenumber, \<^verbatim>\<open>2*math.pi/boxmpc*config['Ngrid']*16\<close>.\<close>

definition maxk_of :: "pyval \<Rightarrow> config \<Rightarrow> pyerr + pyval" where
  "maxk_of boxmpc config =
     bindE (py_mul (PInt 2) (PFloat math_pi)) (\<lambda>twopi.
     bindE (py_truediv twopi boxmpc) (\<lambda>k0.
     bindE (getitem config ''Ngrid'') (\<lambda>ngrid.
     bindE (py_mul k0 ngrid) (\<lambda>k1.
       py_mul k1 (PInt 16)))))"

definition solver_params ::
  "config \<Rightarrow> string option \<Rightarrow> real list option \<Rightarrow> bool \<Rightarrow> pyerr + config \<times> params \<times> real" where
  "solver_params config0 external_pk extraz verbose =
     (let pre0 = precision_params(''gauge'' \<mapsto> PStr ''synchronous'') in
      bindE (build_cosmology_params config0) (\<lambda>(config, gparams).
      let pre1 = pre0 ++ gparams in
      bindE (getitem config ''Redshift'') (\<lambda>z0.
      bindE (getitem config ''InputPowerRedshift'') (\<lambda>ipz.
      bindE (py_ge ipz 0) (\<lambda>use_ipz.
      bindE (if use_ipz then getitem config ''InputPowerRedshift'' else Inr z0) (\<lambda>redshift.
      bindE (boxmpc_of config) (\<lambda>boxmpc.
      bindE (maxk_of boxmpc config) (\<lambda>maxk.
      bindE (case num_of redshift of None \<Rightarrow> Inl TypeError | Some z \<Rightarrow> Inr z) (\<lambda>z.
      let outputs = [z] @ (case extraz of None \<Rightarrow> [] | Some zs \<Rightarrow> zs);
          powerparams =
            [''output'' \<mapsto> PStr ''dTk vTk mPk'',
             ''P_k_max_h/Mpc'' \<mapsto> maxk,
             ''z_max_pk'' \<mapsto> PFloat (fl (1 + fold max outputs z)),
             ''z_pk'' \<mapsto> PArray outputs,
             ''extra metric transfer functions'' \<mapsto> PStr ''y''];
          pre2 = pre1 ++ powerparams;
          pre3 = (if verbose then pre2 ++ verb_params else pre2);
          pre4 = (case external_pk of
                    None \<Rightarrow> pre3
                  | Some f \<Rightarrow> pre3(''P_k_ini'' \<mapsto> PStr ''external_pk'',
                                    ''command'' \<mapsto> PTuple [PStr ''cat '', PStr f]))
      in Inr (config, pre4, z))))))))))"

section \<open>Paths, files and the run\<close>

text \<open>\<^verbatim>\<open>os.path.split\<close> and \<^verbatim>\<open>os.path.join\<close> of \<^verbatim>\<open>posixpath\<close>.\<close>

definition is_sep :: "char \<Rightarrow> bool" where
  "is_sep c = (c = CHR ''/'')"

definition os_path_split :: "string \<Rightarrow> string \<times> string" where
  "os_path_split p =
     (let tail = rev (takeWhile (\<lambda>c. \<not> is_sep c) (rev p));
          head = take (length p - length tail) p
      in (if head \<noteq> [] \<and> \<not> list_all is_sep head
          then rev (dropWhile is_sep (rev head)) else head, tail))"

definition os_path_join :: "string \<Rightarrow> string \<Rightarrow> string" where
  "os_path_join a b =
     (if b \<noteq> [] \<and> is_sep (hd b) then b
      else if a = [] \<or> is_sep (last a) then a @ b
      else a @ ''/'' @ b)"

text \<open>
  The world the script runs in: the files on disk, by path, and the parameter dictionaries
  the solver engine has been started with, in order. What a table holds is not modelled
  beyond its kind and redshift.
\<close>

datatype content = TransferTable real | PowerTable real | OtherFile

record world =
  files :: "string \<rightharpoonup> content"
  engine_runs :: "params list"

definition os_path_exists :: "world \<Rightarrow> string \<Rightarrow> bool" where
  "os_path_exists w p = (files w p \<noteq> None)"

definition savetxt :: "string \<Rightarrow> content \<Rightarrow> world \<Rightarrow> world" where
  "savetxt p c w = w\<lparr>files := (files w)(p \<mapsto> c)\<rparr>"

text \<open>\<^verbatim>\<open>save_transfer\<close>, lines 207 to 221: the table with its fixed header.\<close>

definition save_transfer :: "real \<Rightarrow> string \<Rightarrow> world \<Rightarrow> world" where
  "save_transfer z transferfile w = savetxt transferfile (TransferTable z) w"

text \<open>
  The file name of an output: the configured name, for an extra redshift with
  \<^verbatim>\<open>"-" + str(red)\<close> appended, joined to the directory of the parameter file.
\<close>

definition output_path :: "config \<Rightarrow> string \<Rightarrow> string \<Rightarrow> string option \<Rightarrow> pyerr + string" where
  "output_path config sdir key suffix =
     bindE (getitem config key) (\<lambda>name.
     bindE (case suffix of
              None \<Rightarrow> Inr name
            | Some s \<Rightarrow> bindE (py_add name (PStr ''-'')) (\<lambda>n1. py_add n1 (PStr s))) (\<lambda>full.
     bindE (path_of full) (\<lambda>p. Inr (os_path_join sdir p))))"

text \<open>
  Lines 180 to 183 and 195 to 198. The refusal names \<^verbatim>\<open>transferfile\<close>, which is
  not a name of \<^verbatim>\<open>make_class_power\<close> (it is the parameter of
  \<^verbatim>\<open>save_transfer\<close>): evaluating the \<^verbatim>\<open>raise\<close> raises NameError.
\<close>

definition write_transfer ::
  "config \<Rightarrow> string \<Rightarrow> string option \<Rightarrow> real \<Rightarrow> world \<Rightarrow> (pyerr + unit) \<times> world" where
  "write_transfer config sdir suffix z w =
     (case output_path config sdir ''FileWithTransferFunction'' suffix of
        Inl e \<Rightarrow> (Inl e, w)
      | Inr tfile \<Rightarrow>
          if os_path_exists w tfile then (Inl (NameError ''transferfile''), w)
          else (Inr (), save_transfer z tfile w))"

text \<open>Lines 188 to 191 and 202 to 205.\<close>

definition write_pk ::
  "config \<Rightarrow> string \<Rightarrow> string option \<Rightarrow> real \<Rightarrow> world \<Rightarrow> (pyerr + unit) \<times> world" where
  "write_pk config sdir suffix z w =
     (case output_path config sdir ''FileWithInputSpectrum'' suffix of
        Inl e \<Rightarrow> (Inl e, w)
      | Inr pkfile \<Rightarrow>
          if os_path_exists w pkfile
          then (Inl (IOError ''Refusing to write to existing file: '' pkfile), w)
          else (Inr (), savetxt pkfile (PowerTable z) w))"

text \<open>The loop over \<^verbatim>\<open>extraz\<close>, lines 193 to 205; \<open>str\<close> is Python's \<^verbatim>\<open>str\<close> on a float.\<close>

fun extra_outputs ::
  "(real \<Rightarrow> string) \<Rightarrow> config \<Rightarrow> string \<Rightarrow> real list \<Rightarrow> world \<Rightarrow> (pyerr + unit) \<times> world" where
  "extra_outputs str config sdir [] w = (Inr (), w)"
| "extra_outputs str config sdir (red # rest) w =
     (case write_transfer config sdir (Some (str red)) red w of
        (Inl e, w1) \<Rightarrow> (Inl e, w1)
      | (Inr _, w1) \<Rightarrow>
          (case write_pk config sdir (Some (str red)) red w1 of
             (Inl e, w2) \<Rightarrow> (Inl e, w2)
           | (Inr _, w2) \<Rightarrow> extra_outputs str config sdir rest w2))"

text \<open>Lines 176 to 205.\<close>

definition write_outputs ::
  "(real \<Rightarrow> string) \<Rightarrow> config \<Rightarrow> string \<Rightarrow> real \<Rightarrow> real list option \<Rightarrow> world
     \<Rightarrow> (pyerr + unit) \<times> world" where
  "write_outputs str config paramfile redshift extraz w =
     (let sdir = fst (os_path_split paramfile) in
      case getitem config ''DifferentTransferFunctions'' of
        Inl e \<Rightarrow> (Inl e, w)
      | Inr dtf \<Rightarrow>
          (case (if py_eq_num dtf 1 then write_transfer config sdir None redshift w
                 else (Inr (), w)) of
             (Inl e, w1) \<Rightarrow> (Inl e, w1)
           | (Inr _, w1) \<Rightarrow>
               (case write_pk config sdir None redshift w1 of
                  (Inl e, w2) \<Rightarrow> (Inl e, w2)
                | (Inr _, w2) \<Rightarrow>
                    (case extraz of
                       None \<Rightarrow> (Inr (), w2)
                     | Some zs \<Rightarrow> extra_outputs str config sdir zs w2))))"

text \<open>
  \<^verbatim>\<open>make_class_power\<close>. \<open>rc\<close> is the parameter file as ConfigObj loaded it from
  \<open>paramfile\<close>; \<open>engine\<close> is the solver, which is given the parameter dictionary and
  either fails or stands ready to be queried.
\<close>

definition make_class_power ::
  "(params \<Rightarrow> pyerr option) \<Rightarrow> (real \<Rightarrow> string) \<Rightarrow> rawconfig \<Rightarrow> string \<Rightarrow> string option
     \<Rightarrow> real list option \<Rightarrow> bool \<Rightarrow> world \<Rightarrow> (pyerr + unit) \<times> world" where
  "make_class_power engine str rc paramfile external_pk extraz verbose w =
     (case check_genic_config (os_path_exists w) rc of
        Inl e \<Rightarrow> (Inl e, w)
      | Inr config0 \<Rightarrow>
          (case solver_params config0 external_pk extraz verbose of
             Inl e \<Rightarrow> (Inl e, w)
           | Inr (config, pre_params, redshift) \<Rightarrow>
               (let w1 = w\<lparr>engine_runs := engine_runs w @ [pre_params]\<rparr> in
                case engine pre_params of
                  Some e \<Rightarrow> (Inl e, w1)
                | None \<Rightarrow> write_outputs str config paramfile redshift extraz w1)))"

section \<open>Sample runs\<close>

text \<open>
  A parameter file that gives the required fields and leaves every other field to its
  default, as a user would write it:
  \<^verbatim>\<open>
  FileWithInputSpectrum = pk.txt
  FileWithTransferFunction = tk.txt
  Ngrid = 256
  BoxSize = 100000
  Omega0 = 0.25
  OmegaLambda = 0.75
  OmegaBaryon = 0.0625
  HubbleParam = 0.5
  Redshift = 99
  \<close>
\<close>

definition sample_file :: rawconfig where
  "sample_file = map_of
     [(''FileWithInputSpectrum'', raw_text ''pk.txt''),
      (''FileWithTransferFunction'', raw_text ''tk.txt''),
      (''Ngrid'', raw_int ''256'' 256),
      (''BoxSize'', raw_int ''100000'' 100000),
      (''Omega0'', raw_float ''0.25'' (1 / 4)),
      (''OmegaLambda'', raw_float ''0.75'' (3 / 4)),
      (''OmegaBaryon'', raw_float ''0.0625'' (1 / 16)),
      (''HubbleParam'', raw_float ''0.5'' (1 / 2)),
      (''Redshift'', raw_int ''99'' 99)]"

text \<open>The configuration that validation makes of the sample file, entry by entry.\<close>

definition sample_config :: config where
  "sample_config = map_of
     [(''FileWithInputSpectrum'', PStr ''pk.txt''),
      (''FileWithTransferFunction'', PStr ''tk.txt''),
      (''Ngrid'', PInt 256),
      (''BoxSize'', PFloat 100000),
      (''Omega0'', PFloat (1 / 4)),
      (''OmegaLambda'', PFloat (3 / 4)),
      (''OmegaBaryon'', PFloat (1 / 16)),
      (''HubbleParam'', PFloat (1 / 2)),
      (''Redshift'', PFloat 99),
      (''Sigma8'', PFloat (- 1)),
      (''InputPowerRedshift'', PFloat (- 1)),
      (''DifferentTransferFunctions'', PInt 1),
      (''UnitLength_in_cm'', PFloat (fl (3085678 * 10 ^ 15))),
      (''Omega_fld'', PFloat 0),
      (''w0_fld'', PFloat (- 1)),
      (''wa_fld'', PFloat 0),
      (''MNue'', PFloat 0),
      (''MNum'', PFloat 0),
      (''MNut'', PFloat 0),
      (''MWDM_Therm'', PFloat 0),
      (''PrimordialIndex'', PFloat (fl (971 / 1000))),
      (''PrimordialAmp'', PFloat (fl (2215 / 10 ^ 12))),
      (''CMBTemperature'', PFloat (fl (27255 / 10000)))]"

text \<open>An engine that accepts every parameter dictionary, and a world with no files.\<close>

definition engine_ok :: "params \<Rightarrow> pyerr option" where
  "engine_ok p = None"

definition empty_world :: world where
  "empty_world = \<lparr>files = Map.empty, engine_runs = []\<rparr>"

text \<open>Projections of a result, to state what a run produced.\<close>

definition param_of :: "pyerr + config \<times> params \<Rightarrow> string \<Rightarrow> pyval option" where
  "param_of r k = (case r of Inl e \<Rightarrow> None | Inr (config, g) \<Rightarrow> g k)"


text \<open>Variants of the sample configuration used below.\<close>

definition low_baryon_config :: config where
  "low_baryon_config = sample_config(''OmegaBaryon'' \<mapsto> PFloat 0)"

definition zero_hubble_config :: config where
  "zero_hubble_config = sample_config(''HubbleParam'' \<mapsto> PFloat 0)"

definition sigma8_config :: config where
  "sigma8_config = sample_config(''Sigma8'' \<mapsto> PFloat (3 / 4))"



definition tiny_mass_config :: config where
  "tiny_mass_config = sample_config(''MNue'' \<mapsto> PFloat (pow2 (- 1074)))"

definition massive_config :: config where
  "massive_config = sample_config(''MNue'' \<mapsto> PFloat (1 / 8))"

text \<open>
  More of the typed reading: int and string entries, the configuration as the mapping
  leaves it (line 82 overwrites \<open>OmegaBaryon\<close>), and lines 149 to 158 in double
  arithmetic.
\<close>

definition inum :: "config \<Rightarrow> string \<Rightarrow> int" where
  "inum cfg k = (case cfg k of Some (PInt n) \<Rightarrow> n | _ \<Rightarrow> 0)"

definition sval :: "config \<Rightarrow> string \<Rightarrow> string" where
  "sval cfg k = (case cfg k of Some (PStr s) \<Rightarrow> s | _ \<Rightarrow> [])"

definition mapped_config :: "config \<Rightarrow> config" where
  "mapped_config cfg =
     (if fnum cfg ''OmegaBaryon'' < fl (1 / 1000)
      then cfg(''OmegaBaryon'' \<mapsto> PFloat (fl (486 / 10000))) else cfg)"

definition boxmpc_val :: "config \<Rightarrow> real" where
  "boxmpc_val cfg = fl (fl (fnum cfg ''BoxSize'' / MPC_in_cm) * fnum cfg ''UnitLength_in_cm'')"

definition maxk_val :: "config \<Rightarrow> real" where
  "maxk_val cfg =
     fl (fl (fl (fl (fl 2 * math_pi) / boxmpc_val cfg) * fl (of_int (inum cfg ''Ngrid''))) * fl 16)"

definition primary_redshift :: "config \<Rightarrow> real" where
  "primary_redshift cfg =
     (if 0 \<le> fnum cfg ''InputPowerRedshift'' then fnum cfg ''InputPowerRedshift''
      else fnum cfg ''Redshift'')"

text \<open>
  The save files the start-up check looks at are given and absent, on the paths as the
  configuration spells them.
\<close>

definition savefiles_free :: "(string \<Rightarrow> bool) \<Rightarrow> config \<Rightarrow> bool" where
  "savefiles_free ex cfg =
     (sval cfg ''FileWithInputSpectrum'' \<noteq> [] \<and> \<not> ex (sval cfg ''FileWithInputSpectrum'') \<and>
      (inum cfg ''DifferentTransferFunctions'' = 1 \<longrightarrow>
         sval cfg ''FileWithTransferFunction'' \<noteq> [] \<and>
         \<not> ex (sval cfg ''FileWithTransferFunction'')))"

definition is_ValueError :: "pyerr \<Rightarrow> bool" where
  "is_ValueError e = (case e of ValueError m \<Rightarrow> True | _ \<Rightarrow> False)"

definition is_IOError :: "pyerr \<Rightarrow> bool" where
  "is_IOError e = (case e of IOError a b \<Rightarrow> True | _ \<Rightarrow> False)"

text \<open>
  Parameter files derived from the sample: one that asks for warm dark matter, one that
  also names no power spectrum file, and one that asks for rescaling together with
  different transfer functions.
\<close>

definition warm_file :: rawconfig where
  "warm_file = sample_file(''MWDM_Therm'' \<mapsto> raw_int ''1'' 1)"

definition warm_nofile :: rawconfig where
  "warm_nofile =
     (sample_file(''MWDM_Therm'' \<mapsto> raw_int ''1'' 1))(''FileWithInputSpectrum'' := None)"

definition rescale_file :: rawconfig where
  "rescale_file = sample_file(''InputPowerRedshift'' \<mapsto> raw_int ''9'' 9)"

text \<open>
  A stand-in for Python's \<^verbatim>\<open>str\<close> on floats, for runs that take no extra redshift
  and so never call it.
\<close>

definition str_2f :: "real \<Rightarrow> string" where
  "str_2f z = format_2f z"

text \<open>
  The fields the script computes with have the types validation would give them, and the
  fields it only hands on to the solver are present. On such a configuration no line of
  the script raises TypeError or KeyError.
\<close>

definition typed_fields :: "config \<Rightarrow> bool" where
  "typed_fields cfg =
     (list_all (\<lambda>k. cfg k = Some (PFloat (fnum cfg k)))
        [''HubbleParam'', ''MNue'', ''MNum'', ''MNut'', ''OmegaBaryon'', ''Omega0'',
         ''OmegaLambda'', ''Omega_fld'', ''Sigma8'', ''BoxSize'', ''UnitLength_in_cm'',
         ''Redshift'', ''InputPowerRedshift'', ''MWDM_Therm''] \<and>
      list_all (\<lambda>k. cfg k = Some (PInt (inum cfg k))) [''Ngrid'', ''DifferentTransferFunctions''] \<and>
      list_all (\<lambda>k. cfg k = Some (PStr (sval cfg k)))
        [''FileWithInputSpectrum'', ''FileWithTransferFunction''] \<and>
      list_all (\<lambda>k. cfg k \<noteq> None)
        [''PrimordialIndex'', ''CMBTemperature'', ''w0_fld'', ''wa_fld'', ''PrimordialAmp''])"

definition bad_type_file :: rawconfig where
  "bad_type_file = sample_file(''PrimordialIndex'' \<mapsto> raw_text ''abc'')"

definition missing_field_file :: rawconfig where
  "missing_field_file = sample_file(''Redshift'' := None)"

definition cwd_world :: world where
  "cwd_world = \<lparr>files = [''pk.txt'' \<mapsto> OtherFile], engine_runs = []\<rparr>"

definition first_run :: "(pyerr + unit) \<times> world" where
  "first_run =
     make_class_power engine_ok str_2f sample_file ''run/params.genic'' None None False empty_world"

definition second_run :: "(pyerr + unit) \<times> world" where
  "second_run =
     make_class_power engine_ok str_2f sample_file ''run/params.genic'' None None False
       (snd first_run)"

definition bad_ngrid_file :: rawconfig where
  "bad_ngrid_file = sample_file(''Ngrid'' \<mapsto> raw_int ''-5'' (- 5))"

definition wrong_type_run :: "(pyerr + unit) \<times> world" where
  "wrong_type_run =
     make_class_power engine_ok str_2f bad_type_file ''params.genic'' None None False empty_world"

definition external_run :: "(pyerr + unit) \<times> world" where
  "external_run =
     make_class_power engine_ok str_2f sample_file ''params.genic'' (Some ''extpk.dat'') None
       False empty_world"

section \<open>Properties of rounding\<close>

lemma pow2_powi: "pow2 p = 2 powi p"
  by (simp add: pow2_def power_int_def inverse_eq_divide power_one_over)

lemma pow2_pos [simp]: "0 < pow2 p"
  by (simp add: pow2_powi)

lemma pow2_nonneg [simp]: "0 \<le> pow2 p"
  using pow2_pos [of p] by linarith

lemma pow2_neq_0 [simp]: "pow2 p \<noteq> 0"
  using pow2_pos [of p] by linarith

lemma pow2_add: "pow2 (a + b) = pow2 a * pow2 b"
  by (simp add: pow2_powi power_int_add)

lemma pow2_nat: "0 \<le> p \<Longrightarrow> pow2 p = of_int (2 ^ nat p)"
  by (simp add: pow2_def)

lemma pow2_mono: "a \<le> b \<Longrightarrow> pow2 a \<le> pow2 b"
  by (simp add: pow2_powi power_int_increasing)

lemma pow2_strict_mono: "a < b \<Longrightarrow> pow2 a < pow2 b"
  by (simp add: pow2_powi power_int_strict_increasing)

lemma pow2_le_imp_le: "pow2 a \<le> pow2 b \<Longrightarrow> a \<le> b"
  using pow2_strict_mono [of b a] by (cases "a \<le> b") auto

lemma pow2_less_imp_less: "pow2 a < pow2 b \<Longrightarrow> a < b"
  using pow2_mono [of b a] by (cases "a < b") auto

lemma round_half_even_ge: "of_int n \<le> y \<Longrightarrow> n \<le> round_half_even y"
  unfolding round_half_even_def Let_def by (auto simp: le_floor_iff) linarith+

lemma round_half_even_le: "y \<le> of_int n \<Longrightarrow> round_half_even y \<le> n"
proof -
  assume le: "y \<le> of_int n"
  have f: "\<lfloor>y\<rfloor> \<le> n"
    using le by (simp add: floor_le_iff)
  show ?thesis
  proof (cases "\<lfloor>y\<rfloor> = n")
    case True
    then have "y - of_int \<lfloor>y\<rfloor> \<le> 0" using le by simp
    then show ?thesis
      using True by (simp add: round_half_even_def Let_def)
  next
    case False
    with f have "\<lfloor>y\<rfloor> + 1 \<le> n" by simp
    then show ?thesis
      by (simp add: round_half_even_def Let_def)
  qed
qed


lemma ilog2_bounds:
  assumes "0 < x"
  shows "pow2 (ilog2 x) \<le> x" and "x < pow2 (ilog2 x + 1)"
proof -
  have "pow2 (ilog2 x) \<le> x \<and> x < pow2 (ilog2 x + 1)"
  proof (cases "1 \<le> x")
    case True
    define n where "n = \<lfloor>x\<rfloor>"
    have n: "0 < n" using True by (simp add: n_def)
    have b: "2 ^ nat (bitlen n - 1) \<le> n" "n < 2 ^ nat (bitlen n)"
      using bitlen_bounds [OF n] by simp_all
    have b1: "1 \<le> bitlen n"
      using n bitlen_eq_zero_iff [of n] bitlen_nonneg [of n] by linarith
    have e: "ilog2 x = bitlen n - 1"
      using True by (simp add: ilog2_def n_def)
    have "pow2 (bitlen n - 1) = of_int (2 ^ nat (bitlen n - 1))"
      using b1 by (intro pow2_nat) simp
    also have "\<dots> \<le> of_int n" using b(1) by linarith
    also have "\<dots> \<le> x" by (simp add: n_def)
    finally have lo: "pow2 (ilog2 x) \<le> x" by (simp add: e)
    have "n + 1 \<le> 2 ^ nat (bitlen n)" using b(2) by simp
    then have "real_of_int (n + 1) \<le> real_of_int (2 ^ nat (bitlen n))"
      by linarith
    moreover have "x < real_of_int (n + 1)" by (simp add: n_def)
    moreover have "pow2 (bitlen n) = of_int (2 ^ nat (bitlen n))"
      using b1 by (intro pow2_nat) simp
    ultimately have "x < pow2 (ilog2 x + 1)" by (simp add: e)
    with lo show ?thesis by simp
  next
    case False
    define y where "y = 1 / x"
    define m where "m = \<lceil>y\<rceil> - 1"
    have y1: "1 < y" using False assms by (simp add: y_def)
    have m: "0 < m" using y1 by (simp add: m_def less_ceiling_iff)
    have my: "of_int m < y" "y \<le> of_int m + 1"
      by (simp_all add: m_def) linarith+
    have b: "2 ^ nat (bitlen m - 1) \<le> m" "m < 2 ^ nat (bitlen m)"
      using bitlen_bounds [OF m] by simp_all
    have b1: "1 \<le> bitlen m"
      using m bitlen_eq_zero_iff [of m] bitlen_nonneg [of m] by linarith
    have e: "ilog2 x = - bitlen m"
      using False by (simp add: ilog2_def m_def y_def)
    have "m + 1 \<le> 2 ^ nat (bitlen m)" using b(2) by simp
    then have "real_of_int (m + 1) \<le> real_of_int (2 ^ nat (bitlen m))"
      by (rule of_int_le_iff [THEN iffD2])
    then have "real_of_int (m + 1) \<le> (2::real) ^ nat (bitlen m)" by simp
    with my(2) have up: "y \<le> 2 ^ nat (bitlen m)" by simp
    have "real_of_int (2 ^ nat (bitlen m - 1)) \<le> real_of_int m"
      using b(1) by (rule of_int_le_iff [THEN iffD2])
    then have "(2::real) ^ nat (bitlen m - 1) \<le> real_of_int m" by simp
    with my(1) have dn: "2 ^ nat (bitlen m - 1) < y" by linarith
    have p1: "pow2 (- bitlen m) = 1 / 2 ^ nat (bitlen m)"
      using b1 by (simp add: pow2_def)
    have p2: "pow2 (1 - bitlen m) = 1 / 2 ^ nat (bitlen m - 1)"
      using b1 by (auto simp: pow2_def)
    have "1 / 2 ^ nat (bitlen m) \<le> x"
      using up assms by (simp add: y_def field_simps)
    moreover have "x < 1 / 2 ^ nat (bitlen m - 1)"
      using dn assms by (simp add: y_def field_simps)
    ultimately show ?thesis by (simp add: e p1 p2)
  qed
  then show "pow2 (ilog2 x) \<le> x" and "x < pow2 (ilog2 x + 1)" by simp_all
qed


lemma fl_0 [simp]: "fl 0 = 0"
  by (simp add: fl_def)

lemma fl_nonneg: "0 \<le> x \<Longrightarrow> 0 \<le> fl x"
proof (cases "x = 0")
  case False
  assume "0 \<le> x"
  define p where "p = max (ilog2 \<bar>x\<bar> - 52) (- 1074)"
  have "of_int 0 \<le> x / pow2 p" using \<open>0 \<le> x\<close> by simp
  then have "0 \<le> round_half_even (x / pow2 p)" by (rule round_half_even_ge)
  then have "0 \<le> of_int (round_half_even (x / pow2 p)) * pow2 p" by simp
  then show ?thesis using False by (simp add: fl_def p_def Let_def)
qed simp

lemma fl_nonpos: "x \<le> 0 \<Longrightarrow> fl x \<le> 0"
proof (cases "x = 0")
  case False
  assume "x \<le> 0"
  define p where "p = max (ilog2 \<bar>x\<bar> - 52) (- 1074)"
  have "x / pow2 p \<le> of_int 0" using \<open>x \<le> 0\<close> by (simp add: divide_le_0_iff)
  then have "round_half_even (x / pow2 p) \<le> 0" by (rule round_half_even_le)
  then have "of_int (round_half_even (x / pow2 p)) * pow2 p \<le> 0"
    by (simp add: mult_le_0_iff)
  then show ?thesis using False by (simp add: fl_def p_def Let_def)
qed simp

lemma fl_pos_imp_pos: "0 < fl x \<Longrightarrow> 0 < x"
  using fl_nonpos [of x] by (cases "0 < x") auto

text \<open>Rounding never crosses a power of two that is itself a double.\<close>

lemma fl_ge_pow2_aux:
  assumes "max (ilog2 \<bar>x\<bar> - 52) (- 1074) \<le> m" "pow2 m \<le> x"
  shows "pow2 m \<le> fl x"
proof -
  define p where "p = max (ilog2 \<bar>x\<bar> - 52) (- 1074)"
  have x: "0 < x" using assms(2) pow2_pos [of m] by linarith
  have mp: "0 \<le> m - p" using assms(1) by (simp add: p_def)
  have "pow2 m = pow2 (m - p) * pow2 p"
    using pow2_add [of "m - p" p] by simp
  then have "pow2 (m - p) \<le> x / pow2 p"
    using assms(2) by (simp add: field_simps)
  then have "of_int (2 ^ nat (m - p)) \<le> x / pow2 p"
    using pow2_nat [OF mp] by simp
  then have "2 ^ nat (m - p) \<le> round_half_even (x / pow2 p)"
    by (rule round_half_even_ge)
  then have "real_of_int (2 ^ nat (m - p)) \<le> of_int (round_half_even (x / pow2 p))"
    by (rule of_int_le_iff [THEN iffD2])
  then have "pow2 (m - p) * pow2 p \<le> of_int (round_half_even (x / pow2 p)) * pow2 p"
    using pow2_nat [OF mp] by simp
  moreover have "fl x = of_int (round_half_even (x / pow2 p)) * pow2 p"
    using x by (simp add: fl_def p_def Let_def)
  ultimately show ?thesis
    using \<open>pow2 m = pow2 (m - p) * pow2 p\<close> by simp
qed

lemma fl_ge_pow2:
  assumes "- 1074 \<le> k" "pow2 k \<le> x"
  shows "pow2 k \<le> fl x"
proof -
  have x: "0 < x" using assms(2) pow2_pos [of k] by linarith
  show ?thesis
  proof (cases "ilog2 \<bar>x\<bar> - 52 \<le> k")
    case True
    then show ?thesis using assms by (intro fl_ge_pow2_aux) simp_all
  next
    case False
    then have "k \<le> ilog2 x" using x by simp
    have "pow2 (ilog2 x) \<le> fl x"
      using x assms(1) False ilog2_bounds(1) [OF x] by (intro fl_ge_pow2_aux) simp_all
    with pow2_mono [OF \<open>k \<le> ilog2 x\<close>] show ?thesis by linarith
  qed
qed

lemma fl_le_pow2:
  assumes "- 1074 \<le> k" "x \<le> pow2 k"
  shows "fl x \<le> pow2 k"
proof (cases "0 < x")
  case False
  then have "fl x \<le> 0" by (intro fl_nonpos) simp
  with pow2_pos [of k] show ?thesis by linarith
next
  case x: True
  define p where "p = max (ilog2 \<bar>x\<bar> - 52) (- 1074)"
  have "pow2 (ilog2 x) \<le> pow2 k"
    using ilog2_bounds(1) [OF x] assms(2) by linarith
  then have "ilog2 x \<le> k" by (rule pow2_le_imp_le)
  then have kp: "0 \<le> k - p" using assms(1) x by (simp add: p_def)
  have eq: "pow2 k = pow2 (k - p) * pow2 p"
    using pow2_add [of "k - p" p] by simp
  then have "x / pow2 p \<le> pow2 (k - p)"
    using assms(2) by (simp add: field_simps)
  then have "x / pow2 p \<le> of_int (2 ^ nat (k - p))"
    using pow2_nat [OF kp] by simp
  then have "round_half_even (x / pow2 p) \<le> 2 ^ nat (k - p)"
    by (rule round_half_even_le)
  then have "real_of_int (round_half_even (x / pow2 p)) \<le> of_int (2 ^ nat (k - p))"
    by (rule of_int_le_iff [THEN iffD2])
  then have "of_int (round_half_even (x / pow2 p)) * pow2 p \<le> pow2 (k - p) * pow2 p"
    using pow2_nat [OF kp] by simp
  moreover have "fl x = of_int (round_half_even (x / pow2 p)) * pow2 p"
    using x by (simp add: fl_def p_def Let_def)
  ultimately show ?thesis using eq by simp
qed



text \<open>Powers of two are doubles, and below half the smallest double everything rounds to zero.\<close>

lemma fl_pow2: "- 1074 \<le> k \<Longrightarrow> fl (pow2 k) = pow2 k"
  using fl_ge_pow2 [of k "pow2 k"] fl_le_pow2 [of k "pow2 k"] by simp

lemma round_half_even_small: "0 \<le> y \<Longrightarrow> y < 1 / 2 \<Longrightarrow> round_half_even y = 0"
proof -
  assume y: "0 \<le> y" "y < 1 / 2"
  then have "\<lfloor>y\<rfloor> = 0" by (simp add: floor_eq_iff)
  then show ?thesis using y by (simp add: round_half_even_def)
qed

lemma fl_underflow:
  assumes "0 \<le> x" "x < pow2 (- 1075)"
  shows "fl x = 0"
proof (cases "x = 0")
  case False
  with assms have x: "0 < x" by simp
  have "pow2 (ilog2 x) < pow2 (- 1075)"
    using ilog2_bounds(1) [OF x] assms(2) by simp
  then have "ilog2 x < - 1075" by (rule pow2_less_imp_less)
  then have p: "max (ilog2 \<bar>x\<bar> - 52) (- 1074) = - 1074" using x by simp
  have "pow2 (- 1075) = pow2 (- 1074) / 2"
    using pow2_add [of "- 1074" "- 1"] by (simp add: pow2_def)
  then have "x / pow2 (- 1074) < 1 / 2" using assms(2) by (simp add: field_simps)
  moreover have "0 \<le> x / pow2 (- 1074)" using x by simp
  ultimately have "round_half_even (x / pow2 (- 1074)) = 0"
    by (rule round_half_even_small [rotated])
  then show ?thesis using False by (simp add: fl_def p)
qed simp

section \<open>Evaluation and basic facts\<close>

lemmas fl_eval = fl_def ilog2_def pow2_def round_half_even_def compute_bitlen Let_def

lemma bindE_Inl [simp]: "bindE (Inl e) f = Inl e"
  by (simp add: bindE_def)

lemma bindE_Inr [simp]: "bindE (Inr v) f = f v"
  by (simp add: bindE_def)

lemma getitem_Some [simp]: "d k = Some v \<Longrightarrow> getitem d k = Inr v"
  by (simp add: getitem_def)

lemma getitem_None [simp]: "d k = None \<Longrightarrow> getitem d k = Inl (KeyError k)"
  by (simp add: getitem_def)

lemma py_float_ops [simp]:
  "py_add (PFloat x) (PFloat y) = Inr (PFloat (fl (x + y)))"
  "py_sub (PFloat x) (PFloat y) = Inr (PFloat (fl (x - y)))"
  "py_sub (PInt n) (PFloat y) = Inr (PFloat (fl (fl (of_int n) - y)))"
  "py_mul (PFloat x) (PFloat y) = Inr (PFloat (fl (x * y)))"
  "py_mul (PFloat x) (PInt n) = Inr (PFloat (fl (x * fl (of_int n))))"
  "py_mul (PInt n) (PFloat y) = Inr (PFloat (fl (fl (of_int n) * y)))"
  "py_truediv (PFloat x) (PFloat y) =
     (if y = 0 then Inl ZeroDivisionError else Inr (PFloat (fl (x / y))))"
  "py_square (PFloat x) = Inr (PFloat (fl (x * x)))"
  "py_gt (PFloat x) c = Inr (c < x)"
  "py_ge (PFloat x) c = Inr (c \<le> x)"
  "py_lt (PFloat x) c = Inr (x < c)"
  "py_format_2f (PFloat x) = Inr (format_2f x)"
  by (simp_all add: py_add_def py_sub_def py_mul_def py_truediv_def py_square_def py_gt_def
      py_ge_def py_lt_def py_format_2f_def to_double_def)

lemma valid_configD:
  "valid_config cfg \<Longrightarrow> sp \<in> set GenICconfigspec \<Longrightarrow> valid_field cfg sp"
  by (simp add: valid_config_def list_all_iff)

lemma valid_float:
  assumes "valid_config cfg" "(k, KFloat, mn, mx, d) \<in> set GenICconfigspec"
  shows "cfg k = Some (PFloat (fnum cfg k)) \<and> in_range mn mx (fnum cfg k)"
  using valid_configD [OF assms]
  by (auto simp: valid_field_def has_kind_def fnum_def split: option.splits pyval.splits)

lemma valid_integer:
  assumes "valid_config cfg" "(k, KInteger, mn, mx, d) \<in> set GenICconfigspec"
  shows "\<exists>n. cfg k = Some (PInt n) \<and> in_range mn mx (of_int n)"
  using valid_configD [OF assms]
  by (auto simp: valid_field_def has_kind_def split: option.splits pyval.splits)

lemma valid_string:
  assumes "valid_config cfg" "(k, KString, mn, mx, d) \<in> set GenICconfigspec"
  shows "\<exists>s. cfg k = Some (PStr s)"
  using valid_configD [OF assms]
  by (auto simp: valid_field_def has_kind_def split: option.splits pyval.splits)

text \<open>The fields the cosmology mapping reads, as validation guarantees them.\<close>

lemma valid_cosmology_fields:
  assumes v: "valid_config cfg"
  shows "cfg ''HubbleParam'' = Some (PFloat (fnum cfg ''HubbleParam''))"
    and "cfg ''MNue'' = Some (PFloat (fnum cfg ''MNue''))"
    and "cfg ''MNum'' = Some (PFloat (fnum cfg ''MNum''))"
    and "cfg ''MNut'' = Some (PFloat (fnum cfg ''MNut''))"
    and "cfg ''OmegaBaryon'' = Some (PFloat (fnum cfg ''OmegaBaryon''))"
    and "cfg ''Omega0'' = Some (PFloat (fnum cfg ''Omega0''))"
    and "cfg ''OmegaLambda'' = Some (PFloat (fnum cfg ''OmegaLambda''))"
    and "cfg ''PrimordialIndex'' = Some (PFloat (fnum cfg ''PrimordialIndex''))"
    and "cfg ''CMBTemperature'' = Some (PFloat (fnum cfg ''CMBTemperature''))"
    and "cfg ''Omega_fld'' = Some (PFloat (fnum cfg ''Omega_fld''))"
    and "cfg ''w0_fld'' = Some (PFloat (fnum cfg ''w0_fld''))"
    and "cfg ''wa_fld'' = Some (PFloat (fnum cfg ''wa_fld''))"
    and "cfg ''Sigma8'' = Some (PFloat (fnum cfg ''Sigma8''))"
    and "cfg ''PrimordialAmp'' = Some (PFloat (fnum cfg ''PrimordialAmp''))"
  using valid_float [OF v, of "''HubbleParam''"] valid_float [OF v, of "''MNue''"]
    valid_float [OF v, of "''MNum''"] valid_float [OF v, of "''MNut''"]
    valid_float [OF v, of "''OmegaBaryon''"] valid_float [OF v, of "''Omega0''"]
    valid_float [OF v, of "''OmegaLambda''"] valid_float [OF v, of "''PrimordialIndex''"]
    valid_float [OF v, of "''CMBTemperature''"] valid_float [OF v, of "''Omega_fld''"]
    valid_float [OF v, of "''w0_fld''"] valid_float [OF v, of "''wa_fld''"]
    valid_float [OF v, of "''Sigma8''"] valid_float [OF v, of "''PrimordialAmp''"]
  by (simp_all add: GenICconfigspec_def)


lemma lit_9314_pos: "0 < fl (9314 / 100)"
  using fl_ge_pow2 [of 6 "9314 / 100"] by (simp add: pow2_def)

text \<open>
  The mapping of lines 79 to 118 in closed form. It needs the nine fields it computes with
  to be floats; the five it only passes on may hold anything.
\<close>

lemma build_fields:
  assumes "cfg ''HubbleParam'' = Some (PFloat (fnum cfg ''HubbleParam''))"
    and "cfg ''MNue'' = Some (PFloat (fnum cfg ''MNue''))"
    and "cfg ''MNum'' = Some (PFloat (fnum cfg ''MNum''))"
    and "cfg ''MNut'' = Some (PFloat (fnum cfg ''MNut''))"
    and "cfg ''OmegaBaryon'' = Some (PFloat (fnum cfg ''OmegaBaryon''))"
    and "cfg ''Omega0'' = Some (PFloat (fnum cfg ''Omega0''))"
    and "cfg ''OmegaLambda'' = Some (PFloat (fnum cfg ''OmegaLambda''))"
    and "cfg ''Omega_fld'' = Some (PFloat (fnum cfg ''Omega_fld''))"
    and "cfg ''Sigma8'' = Some (PFloat (fnum cfg ''Sigma8''))"
    and "cfg ''PrimordialIndex'' = Some ns" and "cfg ''CMBTemperature'' = Some tc"
    and "cfg ''w0_fld'' = Some w0" and "cfg ''wa_fld'' = Some wa"
    and "cfg ''PrimordialAmp'' = Some pa"
    and "hubble_sq cfg \<noteq> 0"
  shows "\<exists>g. build_cosmology_params cfg = Inr (mapped_config cfg, g) \<and>
         g ''h'' = Some (PFloat (fnum cfg ''HubbleParam'')) \<and>
         g ''Omega_cdm'' =
           Some (PFloat (fl (fl (fnum cfg ''Omega0'' - baryon_of cfg) - omeganu_of cfg))) \<and>
         g ''Omega_b'' = Some (PFloat (baryon_of cfg)) \<and>
         g ''Omega_k'' = Some (PFloat (fl (fl (fl 1 - fnum cfg ''OmegaLambda'') - fnum cfg ''Omega0''))) \<and>
         g ''n_s'' = Some ns \<and> g ''T_cmb'' = Some tc \<and>
         g ''Omega_fld'' = Some (PFloat (fnum cfg ''Omega_fld'')) \<and>
         (if 0 < omeganu_of cfg
          then g ''m_ncdm'' = Some (PStr (format_2f (fnum cfg ''MNue'') @ '','' @
                                 format_2f (fnum cfg ''MNum'') @ '','' @
                                 format_2f (fnum cfg ''MNut''))) \<and>
               g ''N_ncdm'' = Some (PInt 3) \<and>
               g ''N_ur'' = Some (PFloat (fl (641 / 100000)))
          else g ''N_ur'' = Some (PFloat (fl (3046 / 1000))) \<and>
               g ''m_ncdm'' = None \<and> g ''N_ncdm'' = None \<and>
               g ''tol_ncdm_newtonian'' = None \<and> g ''tol_ncdm_synchronous'' = None \<and>
               g ''tol_ncdm_bg'' = None \<and> g ''l_max_ncdm'' = None \<and>
               g ''ncdm_fluid_approximation'' = None) \<and>
         (if 0 < fnum cfg ''Sigma8''
          then g ''sigma8'' = Some (PFloat (fnum cfg ''Sigma8'')) \<and> g ''A_s'' = None
          else g ''A_s'' = Some pa \<and> g ''sigma8'' = None)"
  using assms lit_9314_pos
  by (simp add: build_cosmology_params_def neutrino_block_def amplitude_block_def Let_def
      hubble_sq_def omeganu_of_def baryon_of_def mapped_config_def)

lemma build_valid:
  assumes v: "valid_config cfg" and nz: "hubble_sq cfg \<noteq> 0"
  shows "\<exists>g. build_cosmology_params cfg = Inr (mapped_config cfg, g) \<and>
         g ''Omega_cdm'' =
           Some (PFloat (fl (fl (fnum cfg ''Omega0'' - baryon_of cfg) - omeganu_of cfg))) \<and>
         g ''Omega_b'' = Some (PFloat (baryon_of cfg)) \<and>
         (if 0 < omeganu_of cfg
          then g ''m_ncdm'' = Some (PStr (format_2f (fnum cfg ''MNue'') @ '','' @
                                 format_2f (fnum cfg ''MNum'') @ '','' @
                                 format_2f (fnum cfg ''MNut''))) \<and>
               g ''N_ncdm'' = Some (PInt 3) \<and>
               g ''N_ur'' = Some (PFloat (fl (641 / 100000)))
          else g ''N_ur'' = Some (PFloat (fl (3046 / 1000))) \<and>
               g ''m_ncdm'' = None \<and> g ''N_ncdm'' = None \<and>
               g ''tol_ncdm_newtonian'' = None \<and> g ''tol_ncdm_synchronous'' = None \<and>
               g ''tol_ncdm_bg'' = None \<and> g ''l_max_ncdm'' = None \<and>
               g ''ncdm_fluid_approximation'' = None) \<and>
         (if 0 < fnum cfg ''Sigma8''
          then g ''sigma8'' = Some (PFloat (fnum cfg ''Sigma8'')) \<and> g ''A_s'' = None
          else g ''A_s'' = Some (PFloat (fnum cfg ''PrimordialAmp'')) \<and> g ''sigma8'' = None)"
proof -
  note f = valid_cosmology_fields [OF v]
  from build_fields [OF f(1-7) f(10) f(13) f(8) f(9) f(11) f(12) f(14) nz]
  show ?thesis by blast
qed

lemma build_zero_hubble:
  assumes v: "valid_config cfg" and z: "hubble_sq cfg = 0"
  shows "build_cosmology_params cfg = Inl ZeroDivisionError"
  using valid_cosmology_fields [OF v] z lit_9314_pos
  by (simp add: build_cosmology_params_def hubble_sq_def)

lemma valid_sample: "valid_config sample_config"
  by (simp add: valid_config_def GenICconfigspec_def valid_field_def has_kind_def
      sample_config_def in_range_def)

lemma valid_upd_float:
  assumes "valid_config cfg" "(k, KFloat, mn, mx, d) \<in> set GenICconfigspec" "in_range mn mx x"
    "distinct (map fst GenICconfigspec)"
  shows "valid_config (cfg(k \<mapsto> PFloat x))"
  unfolding valid_config_def list_all_iff
proof
  fix sp assume sp: "sp \<in> set GenICconfigspec"
  obtain k' kd' mn' mx' d' where sp_eq: "sp = (k', kd', mn', mx', d')"
    by (cases sp) auto
  show "valid_field (cfg(k \<mapsto> PFloat x)) sp"
  proof (cases "k' = k")
    case True
    have "sp = (k, KFloat, mn, mx, d)"
      using assms(2,4) sp True sp_eq by (metis eq_key_imp_eq_value)
    then show ?thesis using assms(3) by (simp add: valid_field_def has_kind_def)
  next
    case False
    then show ?thesis
      using valid_configD [OF assms(1) sp] by (simp add: valid_field_def sp_eq)
  qed
qed

lemma distinct_spec: "distinct (map fst GenICconfigspec)"
  by (simp add: GenICconfigspec_def)

section \<open>The cosmology mapping\<close>

text \<open>
  C4. For every valid configuration whose \<open>OmegaBaryon\<close> is at least the literal
  \<open>0.001\<close> of line 81, \<open>Omega_b\<close> of the derived parameters is the input
  \<open>OmegaBaryon\<close> unchanged; below it, the baryon fraction used in \<open>Omega_b\<close> and in
  the subtraction that gives \<open>Omega_cdm\<close> is the literal \<open>0.0486\<close>. The mapping
  derives a parameter set exactly when the square of \<open>HubbleParam\<close> is not zero;
  otherwise line 80 divides by zero.
\<close>

theorem baryon_fraction_passthrough:
  assumes "valid_config cfg"
  shows "(hubble_sq cfg = 0 \<longrightarrow> build_cosmology_params cfg = Inl ZeroDivisionError) \<and>
         (hubble_sq cfg \<noteq> 0 \<longrightarrow>
            (fl (1 / 1000) \<le> fnum cfg ''OmegaBaryon'' \<longrightarrow>
               param_of (build_cosmology_params cfg) ''Omega_b''
                 = Some (PFloat (fnum cfg ''OmegaBaryon'')) \<and>
               param_of (build_cosmology_params cfg) ''Omega_cdm''
                 = Some (PFloat (fl (fl (fnum cfg ''Omega0'' - fnum cfg ''OmegaBaryon'')
                                      - omeganu_of cfg)))) \<and>
            (fnum cfg ''OmegaBaryon'' < fl (1 / 1000) \<longrightarrow>
               param_of (build_cosmology_params cfg) ''Omega_b''
                 = Some (PFloat (fl (486 / 10000))) \<and>
               param_of (build_cosmology_params cfg) ''Omega_cdm''
                 = Some (PFloat (fl (fl (fnum cfg ''Omega0'' - fl (486 / 10000))
                                      - omeganu_of cfg)))))"
proof (cases "hubble_sq cfg = 0")
  case True
  then show ?thesis using build_zero_hubble [OF assms] by simp
next
  case False
  from build_valid [OF assms False] obtain g c' where
    "build_cosmology_params cfg = Inr (c', g)"
    "g ''Omega_b'' = Some (PFloat (baryon_of cfg))"
    "g ''Omega_cdm'' =
       Some (PFloat (fl (fl (fnum cfg ''Omega0'' - baryon_of cfg) - omeganu_of cfg)))"
    by blast
  then show ?thesis
    using False by (simp add: param_of_def baryon_of_def)
qed

theorem baryon_fraction_passthrough_witness:
  "valid_config sample_config \<and> hubble_sq sample_config \<noteq> 0 \<and>
   fl (1 / 1000) \<le> fnum sample_config ''OmegaBaryon'' \<and>
   param_of (build_cosmology_params sample_config) ''Omega_b'' = Some (PFloat (1 / 16)) \<and>
   valid_config low_baryon_config \<and> fnum low_baryon_config ''OmegaBaryon'' < fl (1 / 1000) \<and>
   param_of (build_cosmology_params low_baryon_config) ''Omega_b''
     = Some (PFloat (fl (486 / 10000))) \<and>
   valid_config zero_hubble_config \<and> hubble_sq zero_hubble_config = 0 \<and>
   build_cosmology_params zero_hubble_config = Inl ZeroDivisionError"
proof -
  have v2: "valid_config low_baryon_config"
    unfolding low_baryon_config_def
    by (rule valid_upd_float [OF valid_sample _ _ distinct_spec, of _ "Some 0" "Some 1"])
       (simp_all add: GenICconfigspec_def in_range_def)
  have v3: "valid_config zero_hubble_config"
    unfolding zero_hubble_config_def
    by (rule valid_upd_float [OF valid_sample _ _ distinct_spec, of _ "Some 0" "Some 2"])
       (simp_all add: GenICconfigspec_def in_range_def)
  have h1: "hubble_sq sample_config = 1 / 4"
    by (simp add: hubble_sq_def fnum_def sample_config_def fl_eval)
  have h2: "hubble_sq low_baryon_config = 1 / 4"
    by (simp add: hubble_sq_def fnum_def sample_config_def low_baryon_config_def fl_eval)
  have h3: "hubble_sq zero_hubble_config = 0"
    by (simp add: hubble_sq_def fnum_def zero_hubble_config_def)
  have b1: "fnum sample_config ''OmegaBaryon'' = 1 / 16"
    by (simp add: fnum_def sample_config_def)
  have b2: "fnum low_baryon_config ''OmegaBaryon'' = 0"
    by (simp add: fnum_def low_baryon_config_def)
  have l: "fl (1 / 1000) = 1152921504606847 / 2 ^ 60"
    by (simp add: fl_eval)
  show ?thesis
    using baryon_fraction_passthrough [OF valid_sample] baryon_fraction_passthrough [OF v2]
      baryon_fraction_passthrough [OF v3] valid_sample v2 v3
    by (simp add: h1 h2 h3 b1 b2 l)
qed


text \<open>
  C6. For every valid configuration the derived parameters hold exactly one of the keys
  \<open>sigma8\<close> and \<open>A_s\<close>: \<open>sigma8\<close>, with the value of \<open>Sigma8\<close>, when
  \<open>Sigma8 > 0\<close>, and \<open>A_s\<close>, with the value of \<open>PrimordialAmp\<close>, otherwise. The
  mapping derives a parameter set exactly when the square of \<open>HubbleParam\<close> is not zero.
\<close>

theorem amplitude_exactly_one:
  assumes "valid_config cfg"
  shows "(hubble_sq cfg = 0 \<longrightarrow> build_cosmology_params cfg = Inl ZeroDivisionError) \<and>
         (hubble_sq cfg \<noteq> 0 \<longrightarrow>
            (0 < fnum cfg ''Sigma8'' \<longrightarrow>
               param_of (build_cosmology_params cfg) ''sigma8''
                 = Some (PFloat (fnum cfg ''Sigma8'')) \<and>
               param_of (build_cosmology_params cfg) ''A_s'' = None) \<and>
            (\<not> 0 < fnum cfg ''Sigma8'' \<longrightarrow>
               param_of (build_cosmology_params cfg) ''A_s''
                 = Some (PFloat (fnum cfg ''PrimordialAmp'')) \<and>
               param_of (build_cosmology_params cfg) ''sigma8'' = None))"
proof (cases "hubble_sq cfg = 0")
  case True
  then show ?thesis using build_zero_hubble [OF assms] by simp
next
  case False
  from build_valid [OF assms False] obtain g c' where
    "build_cosmology_params cfg = Inr (c', g)"
    "if 0 < fnum cfg ''Sigma8''
     then g ''sigma8'' = Some (PFloat (fnum cfg ''Sigma8'')) \<and> g ''A_s'' = None
     else g ''A_s'' = Some (PFloat (fnum cfg ''PrimordialAmp'')) \<and> g ''sigma8'' = None"
    by blast
  then show ?thesis
    using False by (simp add: param_of_def split: if_splits)
qed

theorem amplitude_exactly_one_witness:
  "valid_config sample_config \<and> hubble_sq sample_config \<noteq> 0 \<and>
   \<not> 0 < fnum sample_config ''Sigma8'' \<and>
   param_of (build_cosmology_params sample_config) ''A_s'' = Some (PFloat (fl (2215 / 10 ^ 12))) \<and>
   param_of (build_cosmology_params sample_config) ''sigma8'' = None \<and>
   valid_config sigma8_config \<and> hubble_sq sigma8_config \<noteq> 0 \<and>
   0 < fnum sigma8_config ''Sigma8'' \<and>
   param_of (build_cosmology_params sigma8_config) ''sigma8'' = Some (PFloat (3 / 4)) \<and>
   param_of (build_cosmology_params sigma8_config) ''A_s'' = None"
proof -
  have v2: "valid_config sigma8_config"
    unfolding sigma8_config_def
    by (rule valid_upd_float [OF valid_sample _ _ distinct_spec, of _ None None])
       (simp_all add: GenICconfigspec_def in_range_def)
  have h1: "hubble_sq sample_config = 1 / 4"
    by (simp add: hubble_sq_def fnum_def sample_config_def fl_eval)
  have h2: "hubble_sq sigma8_config = 1 / 4"
    by (simp add: hubble_sq_def fnum_def sample_config_def sigma8_config_def fl_eval)
  have s1: "fnum sample_config ''Sigma8'' = - 1"
    "fnum sample_config ''PrimordialAmp'' = fl (2215 / 10 ^ 12)"
    by (simp_all add: fnum_def sample_config_def)
  have s2: "fnum sigma8_config ''Sigma8'' = 3 / 4"
    by (simp add: fnum_def sigma8_config_def)
  show ?thesis
    using amplitude_exactly_one [OF valid_sample] amplitude_exactly_one [OF v2] valid_sample v2
    by (simp add: h1 h2 s1 s2)
qed









lemma valid_ranges:
  assumes v: "valid_config cfg"
  shows "0 \<le> fnum cfg ''MNue''" "0 \<le> fnum cfg ''MNum''" "0 \<le> fnum cfg ''MNut''"
    "0 \<le> fnum cfg ''HubbleParam''" "fnum cfg ''HubbleParam'' \<le> 2"
    "0 \<le> fnum cfg ''BoxSize''"
  using valid_configD [OF v, of "(''MNue'', KFloat, Some 0, None, Some (raw_int ''0'' 0))"]
    valid_configD [OF v, of "(''MNum'', KFloat, Some 0, None, Some (raw_int ''0'' 0))"]
    valid_configD [OF v, of "(''MNut'', KFloat, Some 0, None, Some (raw_int ''0'' 0))"]
    valid_configD [OF v, of "(''HubbleParam'', KFloat, Some 0, Some 2, None)"]
    valid_configD [OF v, of "(''BoxSize'', KFloat, Some 0, None, None)"]
  by (auto simp: GenICconfigspec_def valid_field_def has_kind_def fnum_def in_range_def
      split: option.splits pyval.splits)

lemma lit_9314_le: "fl (9314 / 100) \<le> 2 ^ 7"
  using fl_le_pow2 [of 7 "9314 / 100"] by (simp add: pow2_def)

lemma hubble_sq_bounds:
  assumes v: "valid_config cfg"
  shows "0 \<le> hubble_sq cfg" "hubble_sq cfg \<le> 4"
proof -
  let ?h = "fnum cfg ''HubbleParam''"
  have "0 \<le> ?h * ?h" by simp
  then show "0 \<le> hubble_sq cfg" unfolding hubble_sq_def by (rule fl_nonneg)
  have "?h * ?h \<le> 2 * 2"
    using valid_ranges(4,5) [OF v] by (intro mult_mono) simp_all
  then have "?h * ?h \<le> pow2 2" by (simp add: pow2_def)
  then have "fl (?h * ?h) \<le> pow2 2" by (intro fl_le_pow2) simp_all
  then show "hubble_sq cfg \<le> 4" by (simp add: hubble_sq_def pow2_def)
qed

lemma omeganu_nonneg:
  assumes v: "valid_config cfg"
  shows "0 \<le> omeganu_of cfg"
  unfolding omeganu_of_def
  using valid_ranges(1,2,3) [OF v] hubble_sq_bounds(1) [OF v] lit_9314_pos
  by (intro fl_nonneg divide_nonneg_nonneg add_nonneg_nonneg) simp_all

lemma omeganu_pos_imp_mass:
  assumes v: "valid_config cfg" and p: "0 < omeganu_of cfg"
  shows "0 < fnum cfg ''MNue'' \<or> 0 < fnum cfg ''MNum'' \<or> 0 < fnum cfg ''MNut''"
proof (rule ccontr)
  assume "\<not> ?thesis"
  then have "fnum cfg ''MNue'' = 0" "fnum cfg ''MNum'' = 0" "fnum cfg ''MNut'' = 0"
    using valid_ranges(1,2,3) [OF v] by simp_all
  then have "omeganu_of cfg = 0" by (simp add: omeganu_of_def)
  with p show False by simp
qed

lemma mass_imp_omeganu_pos:
  assumes v: "valid_config cfg" and nz: "hubble_sq cfg \<noteq> 0"
    and m: "1 / 2 ^ 1000 \<le> fnum cfg ''MNue'' \<or> 1 / 2 ^ 1000 \<le> fnum cfg ''MNum'' \<or>
            1 / 2 ^ 1000 \<le> fnum cfg ''MNut''"
  shows "0 < omeganu_of cfg"
proof -
  let ?a = "fnum cfg ''MNue''" and ?b = "fnum cfg ''MNum''" and ?c = "fnum cfg ''MNut''"
  have p1000: "pow2 (- 1000) = 1 / 2 ^ 1000" by (simp add: pow2_def)
  have r: "0 \<le> ?a" "0 \<le> ?b" "0 \<le> ?c" using valid_ranges(1,2,3) [OF v] .
  have s1: "0 \<le> fl (?a + ?b)" using r by (intro fl_nonneg) simp
  have s2: "pow2 (- 1000) \<le> fl (fl (?a + ?b) + ?c)"
  proof (cases "1 / 2 ^ 1000 \<le> ?c")
    case True
    then have "pow2 (- 1000) \<le> fl (?a + ?b) + ?c" using s1 p1000 by linarith
    then show ?thesis by (intro fl_ge_pow2) simp_all
  next
    case False
    with m r have "pow2 (- 1000) \<le> ?a + ?b" using p1000 by linarith
    then have "pow2 (- 1000) \<le> fl (?a + ?b)" by (intro fl_ge_pow2) simp_all
    then have "pow2 (- 1000) \<le> fl (?a + ?b) + ?c" using r by linarith
    then show ?thesis by (intro fl_ge_pow2) simp_all
  qed
  let ?s = "fl (fl (?a + ?b) + ?c)"
  have "pow2 (- 1007) = pow2 (- 1000) / 2 ^ 7"
    using pow2_add [of "- 1000" "- 7"] by (simp add: pow2_def)
  also have "\<dots> \<le> ?s / 2 ^ 7" using s2 by (simp add: divide_right_mono)
  also have "\<dots> \<le> ?s / fl (9314 / 100)"
  proof -
    have "0 \<le> ?s" using s2 pow2_pos [of "- 1000"] by linarith
    then show ?thesis
      using lit_9314_le lit_9314_pos by (intro divide_left_mono) simp_all
  qed
  finally have q: "pow2 (- 1007) \<le> fl (?s / fl (9314 / 100))"
    by (intro fl_ge_pow2) simp_all
  let ?q = "fl (?s / fl (9314 / 100))"
  have hpos: "0 < hubble_sq cfg" using hubble_sq_bounds(1) [OF v] nz by simp
  have "pow2 (- 1009) = pow2 (- 1007) / 4"
    using pow2_add [of "- 1007" "- 2"] by (simp add: pow2_def)
  also have "\<dots> \<le> ?q / 4" using q by (simp add: divide_right_mono)
  also have "\<dots> \<le> ?q / hubble_sq cfg"
  proof -
    have "0 \<le> ?q" using q pow2_pos [of "- 1007"] by linarith
    then show ?thesis
      using hubble_sq_bounds(2) [OF v] hpos by (intro divide_left_mono) simp_all
  qed
  finally have "pow2 (- 1009) \<le> fl (?q / hubble_sq cfg)"
    by (intro fl_ge_pow2) simp_all
  then have "pow2 (- 1009) \<le> omeganu_of cfg"
    by (simp add: omeganu_of_def)
  then show ?thesis
    using pow2_pos [of "- 1009"] by linarith
qed

lemma valid_tiny_mass: "valid_config tiny_mass_config"
  unfolding tiny_mass_config_def
  by (rule valid_upd_float [OF valid_sample _ _ distinct_spec, of _ "Some 0" None])
     (simp_all add: GenICconfigspec_def in_range_def not_less)

lemma valid_massive: "valid_config massive_config"
  unfolding massive_config_def
  by (rule valid_upd_float [OF valid_sample _ _ distinct_spec, of _ "Some 0" None])
     (simp_all add: GenICconfigspec_def in_range_def)

lemma omeganu_tiny: "omeganu_of tiny_mass_config = 0"
proof -
  have a: "fl (pow2 (- 1074)) = pow2 (- 1074)"
    by (rule fl_pow2) simp
  have c: "64 \<le> fl (9314 / 100)"
    using fl_ge_pow2 [of 6 "9314 / 100"] by (simp add: pow2_def)
  have "pow2 (- 1074) / fl (9314 / 100) \<le> pow2 (- 1074) / 64"
    using c by (intro divide_left_mono) simp_all
  also have "\<dots> < pow2 (- 1074) / 2" by (simp add: field_simps)
  also have "\<dots> = pow2 (- 1075)"
    using pow2_add [of "- 1074" "- 1"] by (simp add: pow2_def)
  finally have "fl (pow2 (- 1074) / fl (9314 / 100)) = 0"
    using lit_9314_pos by (intro fl_underflow) simp_all
  then show ?thesis
    using a by (simp add: omeganu_of_def fnum_def tiny_mass_config_def sample_config_def)
qed

text \<open>
  C5, as the code has it. For every valid configuration for which the mapping returns,
  the computed \<open>Omega_nu\<close> is not negative; it is positive only if one of \<open>MNue\<close>,
  \<open>MNum\<close>, \<open>MNut\<close> is positive, and it is positive whenever one of them is at least
  \<open>2 ^ -1000\<close>. When it is positive the parameters hold \<open>N_ur = 0.00641\<close>,
  \<open>N_ncdm = 3\<close> and \<open>m_ncdm\<close>, the three masses formatted to two decimals and joined by
  commas; when it is zero they hold \<open>N_ur = 3.046\<close> and none of the massive-neutrino
  entries.
\<close>

theorem neutrino_block_rule:
  assumes "valid_config cfg"
  shows "(hubble_sq cfg = 0 \<longrightarrow> build_cosmology_params cfg = Inl ZeroDivisionError) \<and>
         (hubble_sq cfg \<noteq> 0 \<longrightarrow>
            0 \<le> omeganu_of cfg \<and>
            (0 < omeganu_of cfg \<longrightarrow>
               0 < fnum cfg ''MNue'' \<or> 0 < fnum cfg ''MNum'' \<or> 0 < fnum cfg ''MNut'') \<and>
            (1 / 2 ^ 1000 \<le> fnum cfg ''MNue'' \<or> 1 / 2 ^ 1000 \<le> fnum cfg ''MNum'' \<or>
             1 / 2 ^ 1000 \<le> fnum cfg ''MNut'' \<longrightarrow> 0 < omeganu_of cfg) \<and>
            (0 < omeganu_of cfg \<longrightarrow>
               param_of (build_cosmology_params cfg) ''N_ur'' = Some (PFloat (fl (641 / 100000))) \<and>
               param_of (build_cosmology_params cfg) ''N_ncdm'' = Some (PInt 3) \<and>
               param_of (build_cosmology_params cfg) ''m_ncdm''
                 = Some (PStr (format_2f (fnum cfg ''MNue'') @ '','' @
                               format_2f (fnum cfg ''MNum'') @ '','' @
                               format_2f (fnum cfg ''MNut'')))) \<and>
            (omeganu_of cfg = 0 \<longrightarrow>
               param_of (build_cosmology_params cfg) ''N_ur'' = Some (PFloat (fl (3046 / 1000))) \<and>
               param_of (build_cosmology_params cfg) ''m_ncdm'' = None \<and>
               param_of (build_cosmology_params cfg) ''N_ncdm'' = None \<and>
               param_of (build_cosmology_params cfg) ''tol_ncdm_newtonian'' = None \<and>
               param_of (build_cosmology_params cfg) ''tol_ncdm_synchronous'' = None \<and>
               param_of (build_cosmology_params cfg) ''tol_ncdm_bg'' = None \<and>
               param_of (build_cosmology_params cfg) ''l_max_ncdm'' = None \<and>
               param_of (build_cosmology_params cfg) ''ncdm_fluid_approximation'' = None))"
proof (cases "hubble_sq cfg = 0")
  case True
  then show ?thesis using build_zero_hubble [OF assms] by simp
next
  case False
  from build_valid [OF assms False] obtain g c' where
    b: "build_cosmology_params cfg = Inr (c', g)"
    and n: "if 0 < omeganu_of cfg
          then g ''m_ncdm'' = Some (PStr (format_2f (fnum cfg ''MNue'') @ '','' @
                                 format_2f (fnum cfg ''MNum'') @ '','' @
                                 format_2f (fnum cfg ''MNut''))) \<and>
               g ''N_ncdm'' = Some (PInt 3) \<and>
               g ''N_ur'' = Some (PFloat (fl (641 / 100000)))
          else g ''N_ur'' = Some (PFloat (fl (3046 / 1000))) \<and>
               g ''m_ncdm'' = None \<and> g ''N_ncdm'' = None \<and>
               g ''tol_ncdm_newtonian'' = None \<and> g ''tol_ncdm_synchronous'' = None \<and>
               g ''tol_ncdm_bg'' = None \<and> g ''l_max_ncdm'' = None \<and>
               g ''ncdm_fluid_approximation'' = None"
    by blast
  have p: "\<And>k. param_of (build_cosmology_params cfg) k = g k"
    by (simp add: param_of_def b)
  have massive: "0 < omeganu_of cfg \<longrightarrow>
      g ''N_ur'' = Some (PFloat (fl (641 / 100000))) \<and> g ''N_ncdm'' = Some (PInt 3) \<and>
      g ''m_ncdm'' = Some (PStr (format_2f (fnum cfg ''MNue'') @ '','' @
                                 format_2f (fnum cfg ''MNum'') @ '','' @
                                 format_2f (fnum cfg ''MNut'')))"
    using n by simp
  have massless: "omeganu_of cfg = 0 \<longrightarrow>
      g ''N_ur'' = Some (PFloat (fl (3046 / 1000))) \<and> g ''m_ncdm'' = None \<and>
      g ''N_ncdm'' = None \<and> g ''tol_ncdm_newtonian'' = None \<and>
      g ''tol_ncdm_synchronous'' = None \<and> g ''tol_ncdm_bg'' = None \<and>
      g ''l_max_ncdm'' = None \<and> g ''ncdm_fluid_approximation'' = None"
    using n by simp
  show ?thesis
    using False omeganu_nonneg [OF assms] omeganu_pos_imp_mass [OF assms]
      mass_imp_omeganu_pos [OF assms False] massive massless
    by (simp only: p) blast
qed

theorem neutrino_block_rule_witness:
  "valid_config massive_config \<and> hubble_sq massive_config \<noteq> 0 \<and>
   1 / 2 ^ 1000 \<le> fnum massive_config ''MNue'' \<and> 0 < omeganu_of massive_config \<and>
   param_of (build_cosmology_params massive_config) ''N_ur'' = Some (PFloat (fl (641 / 100000))) \<and>
   param_of (build_cosmology_params massive_config) ''m_ncdm'' = Some (PStr ''0.12,0.00,0.00'') \<and>
   valid_config sample_config \<and> hubble_sq sample_config \<noteq> 0 \<and> omeganu_of sample_config = 0 \<and>
   param_of (build_cosmology_params sample_config) ''N_ur'' = Some (PFloat (fl (3046 / 1000))) \<and>
   param_of (build_cosmology_params sample_config) ''m_ncdm'' = None"
proof -
  have h1: "hubble_sq massive_config = 1 / 4"
    by (simp add: hubble_sq_def fnum_def sample_config_def massive_config_def fl_eval)
  have h2: "hubble_sq sample_config = 1 / 4"
    by (simp add: hubble_sq_def fnum_def sample_config_def fl_eval)
  have m: "fnum massive_config ''MNue'' = 1 / 8" "fnum massive_config ''MNum'' = 0"
    "fnum massive_config ''MNut'' = 0"
    by (simp_all add: fnum_def massive_config_def sample_config_def)
  have f1: "format_2f (1 / 8) = ''0.12''"
    by (simp add: format_2f_def round_half_even_def digit_char_def)
  have f0: "format_2f 0 = ''0.00''"
    by (simp add: format_2f_def round_half_even_def digit_char_def)
  have nu: "omeganu_of sample_config = 0"
    by (simp add: omeganu_of_def fnum_def sample_config_def)
  show ?thesis
    using neutrino_block_rule [OF valid_massive] neutrino_block_rule [OF valid_sample]
      valid_massive valid_sample
    by (simp add: h1 h2 m f1 f0 nu)
qed

text \<open>
  The equivalence fails where the division underflows: a mass of \<open>2 ^ -1074\<close>, the
  smallest positive double, is positive, and so is the exact quotient, but the computed
  \<open>Omega_nu\<close> is zero and the parameters are those of massless neutrinos.
\<close>

theorem neutrino_block_rule_counterexample:
  "valid_config tiny_mass_config \<and> hubble_sq tiny_mass_config \<noteq> 0 \<and>
   0 < fnum tiny_mass_config ''MNue'' \<and>
   0 < (fnum tiny_mass_config ''MNue'' + fnum tiny_mass_config ''MNum''
        + fnum tiny_mass_config ''MNut'') / (9314 / 100) / (fnum tiny_mass_config ''HubbleParam'') ^ 2 \<and>
   param_of (build_cosmology_params tiny_mass_config) ''N_ur'' = Some (PFloat (fl (3046 / 1000))) \<and>
   param_of (build_cosmology_params tiny_mass_config) ''N_ur'' \<noteq> Some (PFloat (fl (641 / 100000))) \<and>
   param_of (build_cosmology_params tiny_mass_config) ''m_ncdm'' = None"
proof -
  have h: "hubble_sq tiny_mass_config = 1 / 4"
    by (simp add: hubble_sq_def fnum_def sample_config_def tiny_mass_config_def fl_eval)
  have m: "fnum tiny_mass_config ''MNue'' = pow2 (- 1074)" "fnum tiny_mass_config ''MNum'' = 0"
    "fnum tiny_mass_config ''MNut'' = 0" "fnum tiny_mass_config ''HubbleParam'' = 1 / 2"
    by (simp_all add: fnum_def tiny_mass_config_def sample_config_def)
  have l: "fl (3046 / 1000) \<noteq> fl (641 / 100000)"
    by (simp add: fl_eval)
  from build_valid [OF valid_tiny_mass] h omeganu_tiny obtain g c' where
    "build_cosmology_params tiny_mass_config = Inr (c', g)"
    "g ''N_ur'' = Some (PFloat (fl (3046 / 1000)))" "g ''m_ncdm'' = None"
    by auto
  then show ?thesis
    using valid_tiny_mass l by (simp add: param_of_def h m)
qed

section \<open>Validation\<close>

lemma check_has_kind: "check k mn mx r = Some v \<Longrightarrow> has_kind k mn mx v"
  by (auto simp: check_def has_kind_def split: kind.splits option.splits if_splits)

lemma validate_entry_step:
  "validate_entry rc (cfg, out) sp =
     (case checked_entry rc sp of
        None \<Rightarrow> (cfg, out @ [(fst sp, False)])
      | Some v \<Rightarrow> (cfg(fst sp \<mapsto> v), out @ [(fst sp, True)]))"
  by (simp add: validate_entry_def)

lemma foldl_validate_snd:
  "snd (foldl (validate_entry rc) (cfg, out) sps)
     = out @ map (\<lambda>sp. (fst sp, checked_entry rc sp \<noteq> None)) sps"
  by (induction sps arbitrary: cfg out)
     (auto simp: validate_entry_step split: option.splits)

lemma foldl_validate_other:
  "k \<notin> fst ` set sps \<Longrightarrow> fst (foldl (validate_entry rc) (cfg, out) sps) k = cfg k"
  by (induction sps arbitrary: cfg out)
     (auto simp: validate_entry_step split: option.splits)

lemma foldl_validate_fst:
  assumes "distinct (map fst sps)" "sp \<in> set sps"
  shows "fst (foldl (validate_entry rc) (cfg, out) sps) (fst sp)
           = (case checked_entry rc sp of None \<Rightarrow> cfg (fst sp) | Some v \<Rightarrow> Some v)"
  using assms
proof (induction sps arbitrary: cfg out)
  case Nil
  then show ?case by simp
next
  case (Cons a sps)
  show ?case
  proof (cases "sp = a")
    case True
    have "fst a \<notin> fst ` set sps" using Cons.prems(1) by simp
    then show ?thesis
      using True by (simp add: validate_entry_step foldl_validate_other split: option.splits)
  next
    case False
    then have in_rest: "sp \<in> set sps" using Cons.prems(2) by simp
    then have ne: "fst sp \<noteq> fst a" using Cons.prems(1) by (auto simp: image_iff)
    have d: "distinct (map fst sps)" using Cons.prems(1) by simp
    show ?thesis
      using Cons.IH [OF d in_rest] ne
      by (simp add: validate_entry_step split: option.splits)
  qed
qed

text \<open>What validation leaves at a key of the schema.\<close>

lemma validate_at:
  assumes "sp \<in> set GenICconfigspec"
  shows "fst (validate rc) (fst sp)
           = (case checked_entry rc sp of None \<Rightarrow> loaded rc (fst sp) | Some v \<Rightarrow> Some v)"
  unfolding validate_def by (rule foldl_validate_fst [OF distinct_spec assms])

lemma schema_ok_iff:
  "schema_ok rc \<longleftrightarrow> (\<forall>sp \<in> set GenICconfigspec. checked_entry rc sp \<noteq> None)"
  by (simp add: schema_ok_def validate_def foldl_validate_snd list_all_iff)

text \<open>A parameter file that passes validation leaves a valid configuration.\<close>

lemma schema_ok_valid:
  assumes "schema_ok rc"
  shows "valid_config (fst (validate rc))"
  unfolding valid_config_def list_all_iff
proof
  fix sp assume sp: "sp \<in> set GenICconfigspec"
  obtain name k mn mx d where e: "sp = (name, k, mn, mx, d)" by (cases sp) auto
  from assms sp obtain v where c: "checked_entry rc sp = Some v"
    by (auto simp: schema_ok_iff)
  then have "has_kind k mn mx v"
    by (auto simp: checked_entry_def e intro: check_has_kind split: option.splits)
  moreover have "fst (validate rc) name = Some v"
    using validate_at [OF sp, of rc] c by (simp add: e)
  ultimately show "valid_field (fst (validate rc)) sp"
    by (simp add: valid_field_def e)
qed

lemmas raw_eval = GenICconfigspec_def checked_entry_def check_def in_range_def raw_text_def
  raw_int_def raw_float_def

lemma validate_sample: "fst (validate sample_file) = sample_config"
proof
  fix k
  show "fst (validate sample_file) k = sample_config k"
    by (simp add: validate_def validate_entry_step raw_eval sample_file_def sample_config_def
        loaded_def fl_eval)
qed

lemma schema_ok_sample: "schema_ok sample_file"
  by (simp add: schema_ok_iff raw_eval sample_file_def fl_eval)

lemma valid_inum:
  assumes "valid_config cfg" "(k, KInteger, mn, mx, d) \<in> set GenICconfigspec"
  shows "cfg k = Some (PInt (inum cfg k))"
  using valid_integer [OF assms] by (auto simp: inum_def)

lemma valid_sval:
  assumes "valid_config cfg" "(k, KString, mn, mx, d) \<in> set GenICconfigspec"
  shows "cfg k = Some (PStr (sval cfg k))"
  using valid_string [OF assms] by (auto simp: sval_def)

section \<open>Solver parameters\<close>

lemma MPC_in_cm_pos: "0 < MPC_in_cm"
proof -
  have "pow2 81 \<le> fl (3085678 * 10 ^ 18)"
    by (rule fl_ge_pow2) (simp_all add: pow2_def)
  then show ?thesis
    unfolding MPC_in_cm_def using pow2_pos [of 81] by linarith
qed

lemma valid_solver_fields:
  assumes v: "valid_config cfg"
  shows "cfg ''BoxSize'' = Some (PFloat (fnum cfg ''BoxSize''))"
    and "cfg ''UnitLength_in_cm'' = Some (PFloat (fnum cfg ''UnitLength_in_cm''))"
    and "cfg ''Redshift'' = Some (PFloat (fnum cfg ''Redshift''))"
    and "cfg ''InputPowerRedshift'' = Some (PFloat (fnum cfg ''InputPowerRedshift''))"
    and "cfg ''Ngrid'' = Some (PInt (inum cfg ''Ngrid''))"
  using valid_float [OF v, of "''BoxSize''"] valid_float [OF v, of "''UnitLength_in_cm''"]
    valid_float [OF v, of "''Redshift''"] valid_float [OF v, of "''InputPowerRedshift''"]
    valid_inum [OF v, of "''Ngrid''"]
  by (simp_all add: GenICconfigspec_def)

lemma mapped_config_other:
  "k \<noteq> ''OmegaBaryon'' \<Longrightarrow> mapped_config cfg k = cfg k"
  by (simp add: mapped_config_def)


text \<open>
  Lines 141 to 169 in closed form, given that the mapping returned and that the five
  fields read after it have their types.
\<close>

lemma solver_params_fields:
  assumes b: "build_cosmology_params cfg = Inr (mapped_config cfg, g)"
    and f: "cfg ''BoxSize'' = Some (PFloat (fnum cfg ''BoxSize''))"
      "cfg ''UnitLength_in_cm'' = Some (PFloat (fnum cfg ''UnitLength_in_cm''))"
      "cfg ''Redshift'' = Some (PFloat (fnum cfg ''Redshift''))"
      "cfg ''InputPowerRedshift'' = Some (PFloat (fnum cfg ''InputPowerRedshift''))"
      "cfg ''Ngrid'' = Some (PInt (inum cfg ''Ngrid''))"
  shows "boxmpc_val cfg = 0 \<longrightarrow> solver_params cfg epk ez vb = Inl ZeroDivisionError"
    and "boxmpc_val cfg \<noteq> 0 \<longrightarrow>
          (\<exists>p. solver_params cfg epk ez vb = Inr (mapped_config cfg, p, primary_redshift cfg) \<and>
               p ''P_k_max_h/Mpc'' = Some (PFloat (maxk_val cfg)) \<and>
               p ''n_s'' = g ''n_s'')"
proof -
  define c' where "c' = mapped_config cfg"
  have f': "c' ''BoxSize'' = Some (PFloat (fnum cfg ''BoxSize''))"
    "c' ''UnitLength_in_cm'' = Some (PFloat (fnum cfg ''UnitLength_in_cm''))"
    "c' ''Redshift'' = Some (PFloat (fnum cfg ''Redshift''))"
    "c' ''InputPowerRedshift'' = Some (PFloat (fnum cfg ''InputPowerRedshift''))"
    "c' ''Ngrid'' = Some (PInt (inum cfg ''Ngrid''))"
    using f by (simp_all add: c'_def mapped_config_other)
  have bm: "boxmpc_of c' = Inr (PFloat (boxmpc_val cfg))"
    using f' MPC_in_cm_pos by (simp add: boxmpc_of_def boxmpc_val_def)
  have mk: "maxk_of (PFloat (boxmpc_val cfg)) c' =
         (if boxmpc_val cfg = 0 then Inl ZeroDivisionError else Inr (PFloat (maxk_val cfg)))"
    using f' by (simp add: maxk_of_def maxk_val_def)
  show "boxmpc_val cfg = 0 \<longrightarrow> solver_params cfg epk ez vb = Inl ZeroDivisionError"
  proof
    assume "boxmpc_val cfg = 0"
    with mk have "maxk_of (PFloat (boxmpc_val cfg)) c' = Inl ZeroDivisionError" by simp
    then show "solver_params cfg epk ez vb = Inl ZeroDivisionError"
      using b f' bm by (simp add: solver_params_def c'_def [symmetric])
  qed
  show "boxmpc_val cfg \<noteq> 0 \<longrightarrow>
          (\<exists>p. solver_params cfg epk ez vb = Inr (mapped_config cfg, p, primary_redshift cfg) \<and>
               p ''P_k_max_h/Mpc'' = Some (PFloat (maxk_val cfg)) \<and> p ''n_s'' = g ''n_s'')"
  proof
    assume "boxmpc_val cfg \<noteq> 0"
    with mk have "maxk_of (PFloat (boxmpc_val cfg)) c' = Inr (PFloat (maxk_val cfg))" by simp
    then show "\<exists>p. solver_params cfg epk ez vb = Inr (mapped_config cfg, p, primary_redshift cfg) \<and>
               p ''P_k_max_h/Mpc'' = Some (PFloat (maxk_val cfg)) \<and> p ''n_s'' = g ''n_s''"
      using b f' bm
      by (cases epk; cases vb)
         (simp_all add: solver_params_def c'_def [symmetric] primary_redshift_def Let_def
            map_add_def verb_params_def precision_params_def split: option.split)
  qed
qed


lemma boxmpc_sample: "boxmpc_val sample_config = 7036874417766399 / 2 ^ 46"
  by (simp add: boxmpc_val_def MPC_in_cm_def fnum_def sample_config_def) (simp add: fl_eval)



lemma hubble_sq_sample: "hubble_sq sample_config = 1 / 4"
  by (simp add: hubble_sq_def fnum_def sample_config_def fl_eval)




section \<open>The checks\<close>

lemma valid_check_fields:
  assumes v: "valid_config cfg"
  shows "cfg ''DifferentTransferFunctions'' = Some (PInt (inum cfg ''DifferentTransferFunctions''))"
    and "cfg ''FileWithInputSpectrum'' = Some (PStr (sval cfg ''FileWithInputSpectrum''))"
    and "cfg ''FileWithTransferFunction'' = Some (PStr (sval cfg ''FileWithTransferFunction''))"
    and "cfg ''MWDM_Therm'' = Some (PFloat (fnum cfg ''MWDM_Therm''))"
  using valid_inum [OF v, of "''DifferentTransferFunctions''"]
    valid_sval [OF v, of "''FileWithInputSpectrum''"]
    valid_sval [OF v, of "''FileWithTransferFunction''"]
    valid_float [OF v, of "''MWDM_Therm''"]
  by (simp_all add: GenICconfigspec_def)

lemma valid_typed:
  assumes v: "valid_config cfg"
  shows "typed_fields cfg"
  using valid_cosmology_fields [OF v] valid_solver_fields [OF v] valid_check_fields [OF v]
  by (simp add: typed_fields_def)

text \<open>The checks of lines 60 to 74 in the order they are made.\<close>

lemma genic_checks_fields:
  assumes "cfg ''DifferentTransferFunctions'' = Some (PInt (inum cfg ''DifferentTransferFunctions''))"
    "cfg ''FileWithInputSpectrum'' = Some (PStr (sval cfg ''FileWithInputSpectrum''))"
    "cfg ''FileWithTransferFunction'' = Some (PStr (sval cfg ''FileWithTransferFunction''))"
    "cfg ''MWDM_Therm'' = Some (PFloat (fnum cfg ''MWDM_Therm''))"
    "cfg ''InputPowerRedshift'' = Some (PFloat (fnum cfg ''InputPowerRedshift''))"
  shows "genic_checks ex cfg =
     (if sval cfg ''FileWithInputSpectrum'' = []
      then Inl (IOError ''No savefile specified for '' ''FileWithInputSpectrum'')
      else if ex (sval cfg ''FileWithInputSpectrum'')
      then Inl (IOError ''Refusing to write to existing file: '' (sval cfg ''FileWithInputSpectrum''))
      else if inum cfg ''DifferentTransferFunctions'' = 1 \<and> sval cfg ''FileWithTransferFunction'' = []
      then Inl (IOError ''No savefile specified for '' ''FileWithTransferFunction'')
      else if inum cfg ''DifferentTransferFunctions'' = 1 \<and> ex (sval cfg ''FileWithTransferFunction'')
      then Inl (IOError ''Refusing to write to existing file: ''
                  (sval cfg ''FileWithTransferFunction''))
      else if 0 < fnum cfg ''MWDM_Therm''
      then Inl (ValueError ''Warm dark matter power spectrum cutoff not yet supported.'')
      else if inum cfg ''DifferentTransferFunctions'' = 1 \<and> 0 \<le> fnum cfg ''InputPowerRedshift''
      then Inl (ValueError ''Rescaling with different transfer functions not supported.'')
      else Inr ())"
  using assms by (simp add: genic_checks_def py_eq_num_def path_of_def)

lemma genic_checks_typed:
  assumes t: "typed_fields cfg"
  shows "genic_checks ex cfg =
     (if sval cfg ''FileWithInputSpectrum'' = []
      then Inl (IOError ''No savefile specified for '' ''FileWithInputSpectrum'')
      else if ex (sval cfg ''FileWithInputSpectrum'')
      then Inl (IOError ''Refusing to write to existing file: '' (sval cfg ''FileWithInputSpectrum''))
      else if inum cfg ''DifferentTransferFunctions'' = 1 \<and> sval cfg ''FileWithTransferFunction'' = []
      then Inl (IOError ''No savefile specified for '' ''FileWithTransferFunction'')
      else if inum cfg ''DifferentTransferFunctions'' = 1 \<and> ex (sval cfg ''FileWithTransferFunction'')
      then Inl (IOError ''Refusing to write to existing file: ''
                  (sval cfg ''FileWithTransferFunction''))
      else if 0 < fnum cfg ''MWDM_Therm''
      then Inl (ValueError ''Warm dark matter power spectrum cutoff not yet supported.'')
      else if inum cfg ''DifferentTransferFunctions'' = 1 \<and> 0 \<le> fnum cfg ''InputPowerRedshift''
      then Inl (ValueError ''Rescaling with different transfer functions not supported.'')
      else Inr ())"
  using t by (intro genic_checks_fields) (simp_all add: typed_fields_def)

text \<open>
  C7, as the code has it. For every configuration that passes validation with
  \<open>MWDM_Therm > 0\<close>, or with \<open>DifferentTransferFunctions = 1\<close> and
  \<open>InputPowerRedshift \<ge> 0\<close>, the check step raises and the run ends there, with no
  solver started and no file written. The error is the ValueError of the policy when the
  save files named by the configuration are given and do not exist; when one is not given
  or exists, the file check of lines 63 to 67 comes first and the error is its IOError.
\<close>

theorem unsupported_configuration_refused:
  assumes "schema_ok rc" and "cfg = fst (validate rc)"
    and "0 < fnum cfg ''MWDM_Therm'' \<or>
         (inum cfg ''DifferentTransferFunctions'' = 1 \<and> 0 \<le> fnum cfg ''InputPowerRedshift'')"
  shows "\<exists>e. make_class_power engine str rc paramfile epk ez vb w = (Inl e, w) \<and>
             (savefiles_free (os_path_exists w) cfg \<longrightarrow> is_ValueError e) \<and>
             (\<not> savefiles_free (os_path_exists w) cfg \<longrightarrow> is_IOError e)"
proof -
  have t: "typed_fields cfg"
    using assms(1,2) by (simp add: schema_ok_valid valid_typed)
  show ?thesis
    using assms(3)
    by (auto simp: make_class_power_def check_genic_config_def assms(2) [symmetric]
        genic_checks_typed [OF t] savefiles_free_def is_ValueError_def is_IOError_def)
qed

lemma warm_file_lookups:
  "fst (validate warm_file) ''MWDM_Therm'' = Some (PFloat 1)"
  "fst (validate warm_file) ''DifferentTransferFunctions'' = Some (PInt 1)"
  "fst (validate warm_file) ''FileWithInputSpectrum'' = Some (PStr ''pk.txt'')"
  "fst (validate warm_file) ''FileWithTransferFunction'' = Some (PStr ''tk.txt'')"
  using validate_at [of "(''MWDM_Therm'', KFloat, Some 0, None, Some (raw_int ''0'' 0))" warm_file]
    validate_at [of "(''DifferentTransferFunctions'', KInteger, Some 0, Some 1,
                      Some (raw_int ''1'' 1))" warm_file]
    validate_at [of "(''FileWithInputSpectrum'', KString, None, None, Some (raw_text []))" warm_file]
    validate_at [of "(''FileWithTransferFunction'', KString, None, None, Some (raw_text []))" warm_file]
  by (simp_all add: raw_eval warm_file_def sample_file_def fl_eval)

lemma rescale_file_lookups:
  "fst (validate rescale_file) ''InputPowerRedshift'' = Some (PFloat 9)"
  "fst (validate rescale_file) ''DifferentTransferFunctions'' = Some (PInt 1)"
  "fst (validate rescale_file) ''FileWithInputSpectrum'' = Some (PStr ''pk.txt'')"
  "fst (validate rescale_file) ''FileWithTransferFunction'' = Some (PStr ''tk.txt'')"
  using validate_at [of "(''InputPowerRedshift'', KFloat, None, None, Some (raw_int ''-1'' (- 1)))"
                        rescale_file]
    validate_at [of "(''DifferentTransferFunctions'', KInteger, Some 0, Some 1,
                      Some (raw_int ''1'' 1))" rescale_file]
    validate_at [of "(''FileWithInputSpectrum'', KString, None, None, Some (raw_text []))"
                    rescale_file]
    validate_at [of "(''FileWithTransferFunction'', KString, None, None, Some (raw_text []))"
                    rescale_file]
  by (simp_all add: raw_eval rescale_file_def sample_file_def fl_eval)

theorem unsupported_configuration_refused_witness:
  "schema_ok warm_file \<and> 0 < fnum (fst (validate warm_file)) ''MWDM_Therm'' \<and>
   savefiles_free (os_path_exists empty_world) (fst (validate warm_file)) \<and>
   (\<exists>e. make_class_power engine_ok str_2f warm_file ''params.genic'' None None False empty_world
          = (Inl e, empty_world) \<and> is_ValueError e) \<and>
   schema_ok rescale_file \<and> inum (fst (validate rescale_file)) ''DifferentTransferFunctions'' = 1 \<and>
   0 \<le> fnum (fst (validate rescale_file)) ''InputPowerRedshift'' \<and>
   savefiles_free (os_path_exists empty_world) (fst (validate rescale_file)) \<and>
   (\<exists>e. make_class_power engine_ok str_2f rescale_file ''params.genic'' None None False
           empty_world = (Inl e, empty_world) \<and> is_ValueError e)"
proof -
  have ok1: "schema_ok warm_file"
    by (simp add: schema_ok_iff raw_eval warm_file_def sample_file_def fl_eval)
  have ok2: "schema_ok rescale_file"
    by (simp add: schema_ok_iff raw_eval rescale_file_def sample_file_def fl_eval)
  have m: "fnum (fst (validate warm_file)) ''MWDM_Therm'' = 1"
    by (simp add: fnum_def warm_file_lookups)
  have f1: "savefiles_free (os_path_exists empty_world) (fst (validate warm_file))"
    by (simp add: savefiles_free_def sval_def inum_def warm_file_lookups os_path_exists_def
        empty_world_def)
  have r: "inum (fst (validate rescale_file)) ''DifferentTransferFunctions'' = 1"
    "fnum (fst (validate rescale_file)) ''InputPowerRedshift'' = 9"
    by (simp_all add: fnum_def inum_def rescale_file_lookups)
  have f2: "savefiles_free (os_path_exists empty_world) (fst (validate rescale_file))"
    by (simp add: savefiles_free_def sval_def inum_def rescale_file_lookups os_path_exists_def
        empty_world_def)
  show ?thesis
    using unsupported_configuration_refused [OF ok1 refl, of engine_ok str_2f
        "''params.genic''" None None False empty_world]
      unsupported_configuration_refused [OF ok2 refl, of engine_ok str_2f
        "''params.genic''" None None False empty_world] ok1 ok2 f1 f2
    by (auto simp: m r)
qed

lemma warm_nofile_lookups:
  "fst (validate warm_nofile) ''MWDM_Therm'' = Some (PFloat 1)"
  "fst (validate warm_nofile) ''DifferentTransferFunctions'' = Some (PInt 1)"
  "fst (validate warm_nofile) ''FileWithInputSpectrum'' = Some (PStr [])"
  using validate_at [of "(''MWDM_Therm'', KFloat, Some 0, None, Some (raw_int ''0'' 0))" warm_nofile]
    validate_at [of "(''DifferentTransferFunctions'', KInteger, Some 0, Some 1,
                      Some (raw_int ''1'' 1))" warm_nofile]
    validate_at [of "(''FileWithInputSpectrum'', KString, None, None, Some (raw_text []))"
                    warm_nofile]
  by (simp_all add: raw_eval warm_nofile_def sample_file_def fl_eval)

text \<open>
  With \<open>MWDM_Therm = 1\<close> and no \<open>FileWithInputSpectrum\<close> in the parameter file, which
  then takes its default, the empty string, the error is the IOError of line 65 and not a
  ValueError.
\<close>

theorem unsupported_configuration_refused_counterexample:
  "schema_ok warm_nofile \<and> fnum (fst (validate warm_nofile)) ''MWDM_Therm'' = 1 \<and>
   make_class_power engine_ok str_2f warm_nofile ''params.genic'' None None False empty_world
     = (Inl (IOError ''No savefile specified for '' ''FileWithInputSpectrum''), empty_world)"
proof -
  have ok: "schema_ok warm_nofile"
    by (simp add: schema_ok_iff raw_eval warm_nofile_def sample_file_def fl_eval)
  have m: "fnum (fst (validate warm_nofile)) ''MWDM_Therm'' = 1"
    by (simp add: fnum_def warm_nofile_lookups)
  have "genic_checks (os_path_exists empty_world) (fst (validate warm_nofile))
      = Inl (IOError ''No savefile specified for '' ''FileWithInputSpectrum'')"
    by (simp add: genic_checks_typed [OF valid_typed [OF schema_ok_valid [OF ok]]] sval_def
        warm_nofile_lookups)
  then show ?thesis
    using ok m by (simp add: make_class_power_def check_genic_config_def)
qed

section \<open>The run\<close>

lemma os_path_join_longer:
  assumes "a \<noteq> []" "b = [] \<or> \<not> is_sep (hd b)"
  shows "length b < length (os_path_join a b)"
  using assms by (auto simp: os_path_join_def)

lemma os_path_join_neq:
  assumes "a \<noteq> []" "b = [] \<or> \<not> is_sep (hd b)"
  shows "os_path_join a b \<noteq> b"
  using os_path_join_longer [OF assms] by auto

lemma typed_paths:
  assumes "typed_fields cfg"
  shows "mapped_config cfg ''FileWithInputSpectrum'' = Some (PStr (sval cfg ''FileWithInputSpectrum''))"
    and "mapped_config cfg ''FileWithTransferFunction''
           = Some (PStr (sval cfg ''FileWithTransferFunction''))"
    and "mapped_config cfg ''DifferentTransferFunctions''
           = Some (PInt (inum cfg ''DifferentTransferFunctions''))"
  using assms by (simp_all add: typed_fields_def mapped_config_other)

lemma write_pk_typed:
  assumes t: "typed_fields cfg"
  shows "write_pk (mapped_config cfg) sdir None z w =
     (if os_path_exists w (os_path_join sdir (sval cfg ''FileWithInputSpectrum''))
      then (Inl (IOError ''Refusing to write to existing file: ''
                   (os_path_join sdir (sval cfg ''FileWithInputSpectrum''))), w)
      else (Inr (), savetxt (os_path_join sdir (sval cfg ''FileWithInputSpectrum''))
                      (PowerTable z) w))"
  by (simp add: write_pk_def output_path_def typed_paths [OF t] path_of_def)

lemma write_transfer_typed:
  assumes t: "typed_fields cfg"
  shows "write_transfer (mapped_config cfg) sdir None z w =
     (if os_path_exists w (os_path_join sdir (sval cfg ''FileWithTransferFunction''))
      then (Inl (NameError ''transferfile''), w)
      else (Inr (), save_transfer z (os_path_join sdir (sval cfg ''FileWithTransferFunction'')) w))"
  by (simp add: write_transfer_def output_path_def typed_paths [OF t] path_of_def)

text \<open>The output stage of a run without extra redshifts.\<close>

lemma write_outputs_typed:
  assumes t: "typed_fields cfg"
  shows "write_outputs str (mapped_config cfg) paramfile z None w =
     (if inum cfg ''DifferentTransferFunctions'' = 1
      then (case write_transfer (mapped_config cfg) (fst (os_path_split paramfile)) None z w of
              (Inl e, w1) \<Rightarrow> (Inl e, w1)
            | (Inr u, w1) \<Rightarrow> write_pk (mapped_config cfg) (fst (os_path_split paramfile)) None z w1)
      else write_pk (mapped_config cfg) (fst (os_path_split paramfile)) None z w)"
  using typed_paths(3) [OF t]
  by (auto simp: write_outputs_def py_eq_num_def Let_def split: prod.splits sum.splits)

text \<open>
  A run whose configuration has its types, passes the checks and divides by no zero: the
  engine is started once and the output stage follows.
\<close>

lemma run_typed:
  assumes t: "typed_fields cfg" and c: "cfg = fst (validate rc)"
    and chk: "genic_checks (os_path_exists w) cfg = Inr ()"
    and nz: "hubble_sq cfg \<noteq> 0" and bz: "boxmpc_val cfg \<noteq> 0"
  shows "\<exists>p. p ''n_s'' = cfg ''PrimordialIndex'' \<and>
           make_class_power engine str rc paramfile epk ez vb w =
             (case engine p of
                Some e \<Rightarrow> (Inl e, w\<lparr>engine_runs := engine_runs w @ [p]\<rparr>)
              | None \<Rightarrow> write_outputs str (mapped_config cfg) paramfile (primary_redshift cfg) ez
                          (w\<lparr>engine_runs := engine_runs w @ [p]\<rparr>))"
proof -
  from t have f: "cfg ''HubbleParam'' = Some (PFloat (fnum cfg ''HubbleParam''))"
    "cfg ''MNue'' = Some (PFloat (fnum cfg ''MNue''))"
    "cfg ''MNum'' = Some (PFloat (fnum cfg ''MNum''))"
    "cfg ''MNut'' = Some (PFloat (fnum cfg ''MNut''))"
    "cfg ''OmegaBaryon'' = Some (PFloat (fnum cfg ''OmegaBaryon''))"
    "cfg ''Omega0'' = Some (PFloat (fnum cfg ''Omega0''))"
    "cfg ''OmegaLambda'' = Some (PFloat (fnum cfg ''OmegaLambda''))"
    "cfg ''Omega_fld'' = Some (PFloat (fnum cfg ''Omega_fld''))"
    "cfg ''Sigma8'' = Some (PFloat (fnum cfg ''Sigma8''))"
    and s: "cfg ''BoxSize'' = Some (PFloat (fnum cfg ''BoxSize''))"
    "cfg ''UnitLength_in_cm'' = Some (PFloat (fnum cfg ''UnitLength_in_cm''))"
    "cfg ''Redshift'' = Some (PFloat (fnum cfg ''Redshift''))"
    "cfg ''InputPowerRedshift'' = Some (PFloat (fnum cfg ''InputPowerRedshift''))"
    "cfg ''Ngrid'' = Some (PInt (inum cfg ''Ngrid''))"
    by (simp_all add: typed_fields_def)
  from t obtain ns tc w0 wa pa where pass: "cfg ''PrimordialIndex'' = Some ns"
    "cfg ''CMBTemperature'' = Some tc" "cfg ''w0_fld'' = Some w0" "cfg ''wa_fld'' = Some wa"
    "cfg ''PrimordialAmp'' = Some pa"
    by (auto simp: typed_fields_def)
  from build_fields [OF f pass nz] obtain g where
    b: "build_cosmology_params cfg = Inr (mapped_config cfg, g)" and ns: "g ''n_s'' = Some ns"
    by blast
  from solver_params_fields(2) [OF b s, of epk ez vb] bz obtain p where
    sp: "solver_params cfg epk ez vb = Inr (mapped_config cfg, p, primary_redshift cfg)"
    and pn: "p ''n_s'' = g ''n_s''"
    by blast
  have "make_class_power engine str rc paramfile epk ez vb w =
             (case engine p of
                Some e \<Rightarrow> (Inl e, w\<lparr>engine_runs := engine_runs w @ [p]\<rparr>)
              | None \<Rightarrow> write_outputs str (mapped_config cfg) paramfile (primary_redshift cfg) ez
                          (w\<lparr>engine_runs := engine_runs w @ [p]\<rparr>))"
    using chk sp
    by (simp add: make_class_power_def check_genic_config_def c [symmetric] Let_def)
  then show ?thesis
    using pn ns pass(1) by auto
qed

text \<open>
  C10. The start-up check of lines 60 to 67 tests the save files on the paths as the
  configuration spells them: a file there ends the run at once with the refusal of line
  67. The checks and writes of lines 180 to 191 use those names joined to the directory of
  the parameter file. When that directory is not empty and the names are relative, the two
  are different paths.
\<close>

theorem startup_and_write_paths_differ:
  assumes "schema_ok rc" and "cfg = fst (validate rc)"
    and "sdir = fst (os_path_split paramfile)" and "sdir \<noteq> []"
    and "p = sval cfg ''FileWithInputSpectrum''" and "p \<noteq> []" and "\<not> is_sep (hd p)"
    and "t = sval cfg ''FileWithTransferFunction''" and "t \<noteq> []" and "\<not> is_sep (hd t)"
  shows "os_path_join sdir p \<noteq> p \<and> os_path_join sdir t \<noteq> t \<and>
     (os_path_exists w p \<longrightarrow>
        make_class_power engine str rc paramfile epk ez vb w
          = (Inl (IOError ''Refusing to write to existing file: '' p), w)) \<and>
     (\<not> os_path_exists w p \<and> inum cfg ''DifferentTransferFunctions'' = 1 \<and> os_path_exists w t \<longrightarrow>
        make_class_power engine str rc paramfile epk ez vb w
          = (Inl (IOError ''Refusing to write to existing file: '' t), w)) \<and>
     write_transfer (mapped_config cfg) sdir None z w =
       (if os_path_exists w (os_path_join sdir t) then (Inl (NameError ''transferfile''), w)
        else (Inr (), save_transfer z (os_path_join sdir t) w)) \<and>
     write_pk (mapped_config cfg) sdir None z w =
       (if os_path_exists w (os_path_join sdir p)
        then (Inl (IOError ''Refusing to write to existing file: '' (os_path_join sdir p)), w)
        else (Inr (), savetxt (os_path_join sdir p) (PowerTable z) w))"
proof -
  have ty: "typed_fields cfg"
    using assms(1,2) by (simp add: schema_ok_valid valid_typed)
  have "os_path_join sdir p \<noteq> p" "os_path_join sdir t \<noteq> t"
    using assms(4,7,10) by (simp_all add: os_path_join_neq)
  moreover have "make_class_power engine str rc paramfile epk ez vb w
          = (Inl (IOError ''Refusing to write to existing file: '' p), w)"
    if "os_path_exists w p"
    using that assms(6)
    by (simp add: make_class_power_def check_genic_config_def assms(2) [symmetric]
        genic_checks_typed [OF ty] assms(5) [symmetric])
  moreover have "make_class_power engine str rc paramfile epk ez vb w
          = (Inl (IOError ''Refusing to write to existing file: '' t), w)"
    if "\<not> os_path_exists w p" "inum cfg ''DifferentTransferFunctions'' = 1" "os_path_exists w t"
    using that assms(6,9)
    by (simp add: make_class_power_def check_genic_config_def assms(2) [symmetric]
        genic_checks_typed [OF ty] assms(5) [symmetric] assms(8) [symmetric])
  ultimately show ?thesis
    by (simp add: write_transfer_typed [OF ty] write_pk_typed [OF ty] assms(5,8))
qed

lemma split_run_params: "os_path_split ''run/params.genic'' = (''run'', ''params.genic'')"
  by (simp add: os_path_split_def is_sep_def)

lemma sample_paths:
  "sval sample_config ''FileWithInputSpectrum'' = ''pk.txt''"
  "sval sample_config ''FileWithTransferFunction'' = ''tk.txt''"
  "inum sample_config ''DifferentTransferFunctions'' = 1"
  by (simp_all add: sval_def inum_def sample_config_def)

theorem startup_and_write_paths_differ_witness:
  "schema_ok sample_file \<and> fst (os_path_split ''run/params.genic'') = ''run'' \<and>
   sval (fst (validate sample_file)) ''FileWithInputSpectrum'' = ''pk.txt'' \<and>
   os_path_join ''run'' ''pk.txt'' = ''run/pk.txt'' \<and> os_path_join ''run'' ''pk.txt'' \<noteq> ''pk.txt'' \<and>
   os_path_exists cwd_world ''pk.txt'' \<and> \<not> os_path_exists cwd_world ''run/pk.txt'' \<and>
   make_class_power engine_ok str_2f sample_file ''run/params.genic'' None None False cwd_world
     = (Inl (IOError ''Refusing to write to existing file: '' ''pk.txt''), cwd_world)"
proof -
  have e: "os_path_exists cwd_world ''pk.txt''" "\<not> os_path_exists cwd_world ''run/pk.txt''"
    by (simp_all add: os_path_exists_def cwd_world_def)
  have j: "os_path_join ''run'' ''pk.txt'' = ''run/pk.txt''"
    by (simp add: os_path_join_def is_sep_def)
  show ?thesis
    using startup_and_write_paths_differ [OF schema_ok_sample refl refl _ refl _ _ refl,
        of "''run/params.genic''" cwd_world engine_ok str_2f None None False 99]
      schema_ok_sample e j
    by (simp add: validate_sample sample_paths split_run_params is_sep_def)
qed

section \<open>Runs of the sample files\<close>

lemma sample_at:
  "sample_config ''FileWithInputSpectrum'' = Some (PStr ''pk.txt'')"
  "sample_config ''FileWithTransferFunction'' = Some (PStr ''tk.txt'')"
  "sample_config ''Ngrid'' = Some (PInt 256)"
  "sample_config ''BoxSize'' = Some (PFloat 100000)"
  "sample_config ''Omega0'' = Some (PFloat (1 / 4))"
  "sample_config ''OmegaLambda'' = Some (PFloat (3 / 4))"
  "sample_config ''OmegaBaryon'' = Some (PFloat (1 / 16))"
  "sample_config ''HubbleParam'' = Some (PFloat (1 / 2))"
  "sample_config ''Redshift'' = Some (PFloat 99)"
  "sample_config ''Sigma8'' = Some (PFloat (- 1))"
  "sample_config ''InputPowerRedshift'' = Some (PFloat (- 1))"
  "sample_config ''DifferentTransferFunctions'' = Some (PInt 1)"
  "sample_config ''UnitLength_in_cm'' = Some (PFloat (fl (3085678 * 10 ^ 15)))"
  "sample_config ''Omega_fld'' = Some (PFloat 0)"
  "sample_config ''w0_fld'' = Some (PFloat (- 1))"
  "sample_config ''wa_fld'' = Some (PFloat 0)"
  "sample_config ''MNue'' = Some (PFloat 0)"
  "sample_config ''MNum'' = Some (PFloat 0)"
  "sample_config ''MNut'' = Some (PFloat 0)"
  "sample_config ''MWDM_Therm'' = Some (PFloat 0)"
  "sample_config ''PrimordialIndex'' = Some (PFloat (fl (971 / 1000)))"
  "sample_config ''PrimordialAmp'' = Some (PFloat (fl (2215 / 10 ^ 12)))"
  "sample_config ''CMBTemperature'' = Some (PFloat (fl (27255 / 10000)))"
  by (simp_all add: sample_config_def)

text \<open>Validation treats each entry on its own: where two files agree, so do the results.\<close>

lemma validate_same:
  assumes "name \<in> set (map fst GenICconfigspec)" and "rc name = sample_file name"
  shows "fst (validate rc) name = sample_config name"
proof -
  from assms(1) obtain sp where sp: "sp \<in> set GenICconfigspec" and n: "name = fst sp" by auto
  have same: "rc (fst sp) = sample_file (fst sp)"
    using assms(2) n by simp
  have "checked_entry rc sp = checked_entry sample_file sp"
    using same by (cases sp) (auto simp: checked_entry_def)
  moreover have "loaded rc (fst sp) = loaded sample_file (fst sp)"
    using same by (simp add: loaded_def)
  ultimately have "fst (validate rc) (fst sp) = fst (validate sample_file) (fst sp)"
    by (simp add: validate_at [OF sp] split: option.split)
  then show ?thesis by (simp add: validate_sample n)
qed

lemma typed_sample: "typed_fields sample_config"
  by (rule valid_typed [OF valid_sample])

lemma checks_sample_values:
  "fnum sample_config ''MWDM_Therm'' = 0" "fnum sample_config ''InputPowerRedshift'' = - 1"
  "fnum sample_config ''Redshift'' = 99"
  by (simp_all add: fnum_def sample_at)

lemma primary_redshift_sample: "primary_redshift sample_config = 99"
  by (simp add: primary_redshift_def checks_sample_values)

lemma boxmpc_sample_nz: "boxmpc_val sample_config \<noteq> 0"
  by (simp add: boxmpc_sample)

lemma hubble_sq_sample_nz: "hubble_sq sample_config \<noteq> 0"
  by (simp add: hubble_sq_sample)

lemma mapped_sample_paths:
  "sval sample_config ''FileWithInputSpectrum'' = ''pk.txt''"
  "sval sample_config ''FileWithTransferFunction'' = ''tk.txt''"
  "inum sample_config ''DifferentTransferFunctions'' = 1"
  by (simp_all add: sval_def inum_def sample_at)

lemma joins:
  "os_path_join ''run'' ''pk.txt'' = ''run/pk.txt''"
  "os_path_join ''run'' ''tk.txt'' = ''run/tk.txt''"
  "os_path_join [] ''pk.txt'' = ''pk.txt''"
  "os_path_join [] ''tk.txt'' = ''tk.txt''"
  by (simp_all add: os_path_join_def is_sep_def)

lemma split_plain: "os_path_split ''params.genic'' = ([], ''params.genic'')"
  by (simp add: os_path_split_def is_sep_def)

text \<open>
  The sample file run twice from the directory above its own: the first run writes
  \<open>run/tk.txt\<close> and \<open>run/pk.txt\<close>.
\<close>

lemma first_run_result:
  "\<exists>p. first_run =
     (Inr (), \<lparr>files = [''run/tk.txt'' \<mapsto> TransferTable 99, ''run/pk.txt'' \<mapsto> PowerTable 99],
               engine_runs = [p]\<rparr>)"
proof -
  have chk: "genic_checks (os_path_exists empty_world) sample_config = Inr ()"
    by (simp add: genic_checks_typed [OF typed_sample] mapped_sample_paths checks_sample_values
        os_path_exists_def empty_world_def)
  from run_typed [OF typed_sample validate_sample [symmetric] chk hubble_sq_sample_nz
      boxmpc_sample_nz, of engine_ok str_2f "''run/params.genic''" None None False]
  obtain p where
    "first_run = write_outputs str_2f (mapped_config sample_config) ''run/params.genic''
        (primary_redshift sample_config) None
        (empty_world\<lparr>engine_runs := engine_runs empty_world @ [p]\<rparr>)"
    by (auto simp: first_run_def engine_ok_def)
  then have "first_run =
     (Inr (), \<lparr>files = [''run/tk.txt'' \<mapsto> TransferTable 99, ''run/pk.txt'' \<mapsto> PowerTable 99],
               engine_runs = [p]\<rparr>)"
    by (simp add: write_outputs_typed [OF typed_sample] write_transfer_typed [OF typed_sample]
        write_pk_typed [OF typed_sample] mapped_sample_paths split_run_params joins
        primary_redshift_sample os_path_exists_def empty_world_def save_transfer_def savetxt_def)
  then show ?thesis by blast
qed

text \<open>
  C2, on the code. A second run over the outputs of the first does end without touching
  them, but not with the refusal the script means to raise: the parameter file lies in
  \<open>run/\<close>, so the start-up check, which looks at \<open>pk.txt\<close> and \<open>tk.txt\<close>, passes, the
  solver runs again, and line 182 then names \<^verbatim>\<open>transferfile\<close>, which is not defined
  there. The run ends in NameError.
\<close>

theorem rerun_raises_name_error:
  "fst first_run = Inr () \<and>
   files (snd first_run) = [''run/tk.txt'' \<mapsto> TransferTable 99, ''run/pk.txt'' \<mapsto> PowerTable 99] \<and>
   fst second_run = Inl (NameError ''transferfile'') \<and>
   files (snd second_run) = files (snd first_run) \<and>
   length (engine_runs (snd second_run)) = 2"
proof -
  from first_run_result obtain p where
    f: "first_run =
     (Inr (), \<lparr>files = [''run/tk.txt'' \<mapsto> TransferTable 99, ''run/pk.txt'' \<mapsto> PowerTable 99],
               engine_runs = [p]\<rparr>)"
    by blast
  define w where "w = \<lparr>files = [''run/tk.txt'' \<mapsto> TransferTable 99,
                               ''run/pk.txt'' \<mapsto> PowerTable 99], engine_runs = [p]\<rparr>"
  have chk: "genic_checks (os_path_exists w) sample_config = Inr ()"
    by (simp add: genic_checks_typed [OF typed_sample] mapped_sample_paths checks_sample_values
        os_path_exists_def w_def)
  from run_typed [OF typed_sample validate_sample [symmetric] chk hubble_sq_sample_nz
      boxmpc_sample_nz, of engine_ok str_2f "''run/params.genic''" None None False]
  obtain p' where
    "second_run = write_outputs str_2f (mapped_config sample_config) ''run/params.genic''
        (primary_redshift sample_config) None (w\<lparr>engine_runs := engine_runs w @ [p']\<rparr>)"
    by (auto simp: second_run_def f w_def engine_ok_def)
  then have s: "second_run = (Inl (NameError ''transferfile''), w\<lparr>engine_runs := [p, p']\<rparr>)"
    by (simp add: write_outputs_typed [OF typed_sample] write_transfer_typed [OF typed_sample]
        mapped_sample_paths split_run_params joins os_path_exists_def w_def)
  show ?thesis
    by (simp add: f s w_def)
qed

section \<open>Parameter files that violate the schema\<close>

text \<open>The three ways a parameter file can violate the schema, one file each.\<close>

lemma not_ok_bad_files:
  "\<not> schema_ok bad_type_file" "\<not> schema_ok bad_ngrid_file" "\<not> schema_ok missing_field_file"
  by (simp_all add: schema_ok_iff raw_eval bad_type_file_def bad_ngrid_file_def
      missing_field_file_def sample_file_def)

lemma bad_entries:
  "fst (validate bad_type_file) ''PrimordialIndex'' = Some (PStr ''abc'')"
  "fst (validate bad_ngrid_file) ''Ngrid'' = Some (PStr ''-5'')"
  "fst (validate missing_field_file) ''Redshift'' = None"
  using validate_at [of "(''PrimordialIndex'', KFloat, None, None,
                          Some (raw_float ''0.971'' (fl (971 / 1000))))" bad_type_file]
    validate_at [of "(''Ngrid'', KInteger, Some 0, None, None)" bad_ngrid_file]
    validate_at [of "(''Redshift'', KFloat, Some 0, Some 1100, None)" missing_field_file]
  by (simp_all add: raw_eval bad_type_file_def bad_ngrid_file_def missing_field_file_def
      sample_file_def loaded_def)

lemma bad_type_same:
  "k \<in> set (map fst GenICconfigspec) \<Longrightarrow> k \<noteq> ''PrimordialIndex'' \<Longrightarrow>
     fst (validate bad_type_file) k = sample_config k"
  by (rule validate_same) (simp_all add: bad_type_file_def)

lemma bad_ngrid_same:
  "k \<in> set (map fst GenICconfigspec) \<Longrightarrow> k \<noteq> ''Ngrid'' \<Longrightarrow>
     fst (validate bad_ngrid_file) k = sample_config k"
  by (rule validate_same) (simp_all add: bad_ngrid_file_def)

lemma missing_field_same:
  "k \<in> set (map fst GenICconfigspec) \<Longrightarrow> k \<noteq> ''Redshift'' \<Longrightarrow>
     fst (validate missing_field_file) k = sample_config k"
  by (rule validate_same) (simp_all add: missing_field_file_def)

lemma typed_bad_type: "typed_fields (fst (validate bad_type_file))"
  by (simp add: typed_fields_def fnum_def inum_def sval_def bad_type_same bad_entries
      GenICconfigspec_def sample_at)

text \<open>A wrong type in a field that is only handed on: the run goes through.\<close>

lemma wrong_type_run_result:
  "\<exists>p. p ''n_s'' = Some (PStr ''abc'') \<and>
       wrong_type_run =
         (Inr (), \<lparr>files = [''tk.txt'' \<mapsto> TransferTable 99, ''pk.txt'' \<mapsto> PowerTable 99],
                   engine_runs = [p]\<rparr>)"
proof -
  define cfg where "cfg = fst (validate bad_type_file)"
  have t: "typed_fields cfg"
    unfolding cfg_def by (rule typed_bad_type)
  have vals: "sval cfg ''FileWithInputSpectrum'' = ''pk.txt''"
    "sval cfg ''FileWithTransferFunction'' = ''tk.txt''"
    "inum cfg ''DifferentTransferFunctions'' = 1"
    "fnum cfg ''MWDM_Therm'' = 0" "fnum cfg ''InputPowerRedshift'' = - 1"
    "fnum cfg ''Redshift'' = 99"
    by (simp_all add: cfg_def fnum_def inum_def sval_def bad_type_same GenICconfigspec_def
        sample_at)
  have nz: "hubble_sq cfg \<noteq> 0"
    by (simp add: cfg_def hubble_sq_def fnum_def bad_type_same GenICconfigspec_def sample_at
        fl_eval)
  have "boxmpc_val cfg = boxmpc_val sample_config"
    by (simp add: cfg_def boxmpc_val_def fnum_def bad_type_same GenICconfigspec_def)
  then have bz: "boxmpc_val cfg \<noteq> 0"
    by (simp add: boxmpc_sample)
  have z: "primary_redshift cfg = 99"
    by (simp add: primary_redshift_def vals)
  have chk: "genic_checks (os_path_exists empty_world) cfg = Inr ()"
    by (simp add: genic_checks_typed [OF t] vals os_path_exists_def empty_world_def)
  from run_typed [OF t cfg_def chk nz bz, of engine_ok str_2f "''params.genic''" None None False]
  obtain p where p: "p ''n_s'' = cfg ''PrimordialIndex''"
    and "wrong_type_run = write_outputs str_2f (mapped_config cfg) ''params.genic''
        (primary_redshift cfg) None (empty_world\<lparr>engine_runs := engine_runs empty_world @ [p]\<rparr>)"
    by (auto simp: wrong_type_run_def engine_ok_def)
  then have "wrong_type_run =
         (Inr (), \<lparr>files = [''tk.txt'' \<mapsto> TransferTable 99, ''pk.txt'' \<mapsto> PowerTable 99],
                   engine_runs = [p]\<rparr>)"
    by (simp add: write_outputs_typed [OF t] write_transfer_typed [OF t] write_pk_typed [OF t]
        vals z split_plain joins os_path_exists_def empty_world_def save_transfer_def savetxt_def)
  moreover have "p ''n_s'' = Some (PStr ''abc'')"
    using p by (simp add: cfg_def bad_entries)
  ultimately show ?thesis by blast
qed

lemma solver_params_str_ngrid:
  assumes b: "build_cosmology_params cfg = Inr (mapped_config cfg, g)"
    and f: "cfg ''BoxSize'' = Some (PFloat (fnum cfg ''BoxSize''))"
      "cfg ''UnitLength_in_cm'' = Some (PFloat (fnum cfg ''UnitLength_in_cm''))"
      "cfg ''Redshift'' = Some (PFloat (fnum cfg ''Redshift''))"
      "cfg ''InputPowerRedshift'' = Some (PFloat (fnum cfg ''InputPowerRedshift''))"
      "cfg ''Ngrid'' = Some (PStr s)"
    and bz: "boxmpc_val cfg \<noteq> 0"
  shows "solver_params cfg epk ez vb = Inl TypeError"
proof -
  define c' where "c' = mapped_config cfg"
  have f': "c' ''BoxSize'' = Some (PFloat (fnum cfg ''BoxSize''))"
    "c' ''UnitLength_in_cm'' = Some (PFloat (fnum cfg ''UnitLength_in_cm''))"
    "c' ''Redshift'' = Some (PFloat (fnum cfg ''Redshift''))"
    "c' ''InputPowerRedshift'' = Some (PFloat (fnum cfg ''InputPowerRedshift''))"
    "c' ''Ngrid'' = Some (PStr s)"
    using f by (simp_all add: c'_def mapped_config_other)
  have bm: "boxmpc_of c' = Inr (PFloat (boxmpc_val cfg))"
    using f' MPC_in_cm_pos by (simp add: boxmpc_of_def boxmpc_val_def)
  have mk: "maxk_of (PFloat (boxmpc_val cfg)) c' = Inl TypeError"
    using f' bz by (simp add: maxk_of_def py_mul_def to_double_def)
  show ?thesis
    using b f' bm mk by (simp add: solver_params_def c'_def [symmetric])
qed

lemma solver_params_no_redshift:
  assumes b: "build_cosmology_params cfg = Inr (mapped_config cfg, g)"
    and f: "cfg ''Redshift'' = None"
  shows "solver_params cfg epk ez vb = Inl (KeyError ''Redshift'')"
  using b f by (simp add: solver_params_def mapped_config_other)


lemma bad_ngrid_outcome:
  "(\<exists>c g. check_genic_config (os_path_exists empty_world) bad_ngrid_file = Inr c \<and>
          build_cosmology_params c = Inr g) \<and>
   make_class_power engine_ok str_2f bad_ngrid_file ''params.genic'' None None False empty_world
     = (Inl TypeError, empty_world)"
proof -
  define cfg where "cfg = fst (validate bad_ngrid_file)"
  have at: "\<And>k. k \<in> set (map fst GenICconfigspec) \<Longrightarrow> k \<noteq> ''Ngrid'' \<Longrightarrow> cfg k = sample_config k"
    unfolding cfg_def by (rule bad_ngrid_same)
  have vals: "sval cfg ''FileWithInputSpectrum'' = ''pk.txt''"
    "sval cfg ''FileWithTransferFunction'' = ''tk.txt''"
    "inum cfg ''DifferentTransferFunctions'' = 1"
    "fnum cfg ''MWDM_Therm'' = 0" "fnum cfg ''InputPowerRedshift'' = - 1"
    by (simp_all add: fnum_def inum_def sval_def at GenICconfigspec_def sample_at)
  have chk: "genic_checks (os_path_exists empty_world) cfg = Inr ()"
    by (subst genic_checks_fields)
       (simp_all add: fnum_def inum_def sval_def at GenICconfigspec_def sample_at
          os_path_exists_def empty_world_def)
  have nz: "hubble_sq cfg \<noteq> 0"
    by (simp add: hubble_sq_def fnum_def at GenICconfigspec_def sample_at fl_eval)
  have "boxmpc_val cfg = boxmpc_val sample_config"
    by (simp add: boxmpc_val_def fnum_def at GenICconfigspec_def)
  then have bz: "boxmpc_val cfg \<noteq> 0"
    by (simp add: boxmpc_sample)
  have f: "cfg ''HubbleParam'' = Some (PFloat (fnum cfg ''HubbleParam''))"
    "cfg ''MNue'' = Some (PFloat (fnum cfg ''MNue''))"
    "cfg ''MNum'' = Some (PFloat (fnum cfg ''MNum''))"
    "cfg ''MNut'' = Some (PFloat (fnum cfg ''MNut''))"
    "cfg ''OmegaBaryon'' = Some (PFloat (fnum cfg ''OmegaBaryon''))"
    "cfg ''Omega0'' = Some (PFloat (fnum cfg ''Omega0''))"
    "cfg ''OmegaLambda'' = Some (PFloat (fnum cfg ''OmegaLambda''))"
    "cfg ''Omega_fld'' = Some (PFloat (fnum cfg ''Omega_fld''))"
    "cfg ''Sigma8'' = Some (PFloat (fnum cfg ''Sigma8''))"
    "cfg ''PrimordialIndex'' = Some (PFloat (fl (971 / 1000)))"
    "cfg ''CMBTemperature'' = Some (PFloat (fl (27255 / 10000)))"
    "cfg ''w0_fld'' = Some (PFloat (- 1))" "cfg ''wa_fld'' = Some (PFloat 0)"
    "cfg ''PrimordialAmp'' = Some (PFloat (fl (2215 / 10 ^ 12)))"
    by (simp_all add: fnum_def at GenICconfigspec_def sample_at)
  from build_fields [OF f nz] obtain g where
    b: "build_cosmology_params cfg = Inr (mapped_config cfg, g)"
    by blast
  have ng: "cfg ''Ngrid'' = Some (PStr ''-5'')"
    by (simp add: cfg_def bad_entries)
  have sf: "cfg ''BoxSize'' = Some (PFloat (fnum cfg ''BoxSize''))"
    "cfg ''UnitLength_in_cm'' = Some (PFloat (fnum cfg ''UnitLength_in_cm''))"
    "cfg ''Redshift'' = Some (PFloat (fnum cfg ''Redshift''))"
    "cfg ''InputPowerRedshift'' = Some (PFloat (fnum cfg ''InputPowerRedshift''))"
    by (simp_all add: fnum_def at GenICconfigspec_def sample_at)
  have sp: "solver_params cfg None None False = Inl TypeError"
    by (rule solver_params_str_ngrid [OF b sf ng bz])
  have c: "check_genic_config (os_path_exists empty_world) bad_ngrid_file = Inr cfg"
    using chk by (simp add: check_genic_config_def cfg_def Let_def)
  have "make_class_power engine_ok str_2f bad_ngrid_file ''params.genic'' None None False
      empty_world = (Inl TypeError, empty_world)"
    using c sp by (simp add: make_class_power_def)
  then show ?thesis
    using c b by blast
qed


lemma missing_field_outcome:
  "(\<exists>c g. check_genic_config (os_path_exists empty_world) missing_field_file = Inr c \<and>
          build_cosmology_params c = Inr g) \<and>
   make_class_power engine_ok str_2f missing_field_file ''params.genic'' None None False
     empty_world = (Inl (KeyError ''Redshift''), empty_world)"
proof -
  define cfg where "cfg = fst (validate missing_field_file)"
  have at: "\<And>k. k \<in> set (map fst GenICconfigspec) \<Longrightarrow> k \<noteq> ''Redshift'' \<Longrightarrow> cfg k = sample_config k"
    unfolding cfg_def by (rule missing_field_same)
  have chk: "genic_checks (os_path_exists empty_world) cfg = Inr ()"
    by (subst genic_checks_fields)
       (simp_all add: fnum_def inum_def sval_def at GenICconfigspec_def sample_at
          os_path_exists_def empty_world_def)
  have nz: "hubble_sq cfg \<noteq> 0"
    by (simp add: hubble_sq_def fnum_def at GenICconfigspec_def sample_at fl_eval)
  have f: "cfg ''HubbleParam'' = Some (PFloat (fnum cfg ''HubbleParam''))"
    "cfg ''MNue'' = Some (PFloat (fnum cfg ''MNue''))"
    "cfg ''MNum'' = Some (PFloat (fnum cfg ''MNum''))"
    "cfg ''MNut'' = Some (PFloat (fnum cfg ''MNut''))"
    "cfg ''OmegaBaryon'' = Some (PFloat (fnum cfg ''OmegaBaryon''))"
    "cfg ''Omega0'' = Some (PFloat (fnum cfg ''Omega0''))"
    "cfg ''OmegaLambda'' = Some (PFloat (fnum cfg ''OmegaLambda''))"
    "cfg ''Omega_fld'' = Some (PFloat (fnum cfg ''Omega_fld''))"
    "cfg ''Sigma8'' = Some (PFloat (fnum cfg ''Sigma8''))"
    "cfg ''PrimordialIndex'' = Some (PFloat (fl (971 / 1000)))"
    "cfg ''CMBTemperature'' = Some (PFloat (fl (27255 / 10000)))"
    "cfg ''w0_fld'' = Some (PFloat (- 1))" "cfg ''wa_fld'' = Some (PFloat 0)"
    "cfg ''PrimordialAmp'' = Some (PFloat (fl (2215 / 10 ^ 12)))"
    by (simp_all add: fnum_def at GenICconfigspec_def sample_at)
  from build_fields [OF f nz] obtain g where
    b: "build_cosmology_params cfg = Inr (mapped_config cfg, g)"
    by blast
  have sp: "solver_params cfg None None False = Inl (KeyError ''Redshift'')"
    by (rule solver_params_no_redshift [OF b]) (simp add: cfg_def bad_entries)
  have c: "check_genic_config (os_path_exists empty_world) missing_field_file = Inr cfg"
    using chk by (simp add: check_genic_config_def cfg_def Let_def)
  have "make_class_power engine_ok str_2f missing_field_file ''params.genic'' None None False
      empty_world = (Inl (KeyError ''Redshift''), empty_world)"
    using c sp by (simp add: make_class_power_def)
  then show ?thesis
    using c b by blast
qed

text \<open>
  C1, on the code. Loading does not signal a validation failure: line 59 calls
  \<^verbatim>\<open>config.validate(vtor)\<close> and drops what it returns, and the validate library
  reports failures in that value and raises nothing. A parameter file with a wrong type in
  \<open>PrimordialIndex\<close> runs to the end, the text handed to the solver as \<open>n_s\<close>; one
  with \<open>Ngrid\<close> out of range, or with no \<open>Redshift\<close>, passes the check step and the
  cosmology mapping and stops after it with a TypeError or a KeyError.
\<close>

theorem validation_result_dropped:
  "\<not> schema_ok bad_type_file \<and> fst wrong_type_run = Inr () \<and>
   (\<exists>p. engine_runs (snd wrong_type_run) = [p] \<and> p ''n_s'' = Some (PStr ''abc'')) \<and>
   files (snd wrong_type_run) = [''tk.txt'' \<mapsto> TransferTable 99, ''pk.txt'' \<mapsto> PowerTable 99] \<and>
   \<not> schema_ok bad_ngrid_file \<and>
   (\<exists>c g. check_genic_config (os_path_exists empty_world) bad_ngrid_file = Inr c \<and>
          build_cosmology_params c = Inr g) \<and>
   make_class_power engine_ok str_2f bad_ngrid_file ''params.genic'' None None False empty_world
     = (Inl TypeError, empty_world) \<and>
   \<not> schema_ok missing_field_file \<and>
   (\<exists>c g. check_genic_config (os_path_exists empty_world) missing_field_file = Inr c \<and>
          build_cosmology_params c = Inr g) \<and>
   make_class_power engine_ok str_2f missing_field_file ''params.genic'' None None False
     empty_world = (Inl (KeyError ''Redshift''), empty_world)"
proof -
  from wrong_type_run_result obtain p where
    p: "p ''n_s'' = Some (PStr ''abc'')" and
    r: "wrong_type_run =
         (Inr (), \<lparr>files = [''tk.txt'' \<mapsto> TransferTable 99, ''pk.txt'' \<mapsto> PowerTable 99],
                   engine_runs = [p]\<rparr>)"
    by blast
  have "fst wrong_type_run = Inr ()"
    "\<exists>p. engine_runs (snd wrong_type_run) = [p] \<and> p ''n_s'' = Some (PStr ''abc'')"
    "files (snd wrong_type_run) = [''tk.txt'' \<mapsto> TransferTable 99, ''pk.txt'' \<mapsto> PowerTable 99]"
    using p by (simp_all add: r)
  then show ?thesis
    using not_ok_bad_files bad_ngrid_outcome missing_field_outcome by blast
qed

section \<open>The external primordial spectrum\<close>

lemma solver_params_external:
  assumes "solver_params cfg (Some f) ez vb = Inr (c, p, z)"
  shows "p ''P_k_ini'' = Some (PStr ''external_pk'') \<and>
         p ''command'' = Some (PTuple [PStr ''cat '', PStr f])"
  using assms
  by (auto simp: solver_params_def bindE_def Let_def
      split: sum.splits prod.splits if_splits option.splits)

lemma write_transfer_runs:
  "engine_runs (snd (write_transfer c sdir sfx z w)) = engine_runs w"
  by (simp add: write_transfer_def save_transfer_def savetxt_def split: sum.splits)

lemma write_pk_runs:
  "engine_runs (snd (write_pk c sdir sfx z w)) = engine_runs w"
  by (simp add: write_pk_def savetxt_def split: sum.splits)

lemma extra_outputs_runs:
  "engine_runs (snd (extra_outputs str c sdir zs w)) = engine_runs w"
proof (induction zs arbitrary: w)
  case Nil
  then show ?case by simp
next
  case (Cons red zs)
  obtain r1 w1 where t: "write_transfer c sdir (Some (str red)) red w = (r1, w1)"
    by (cases "write_transfer c sdir (Some (str red)) red w") auto
  obtain r2 w2 where k: "write_pk c sdir (Some (str red)) red w1 = (r2, w2)"
    by (cases "write_pk c sdir (Some (str red)) red w1") auto
  have e1: "engine_runs w1 = engine_runs w"
    using write_transfer_runs [of c sdir "Some (str red)" red w] t by simp
  have e2: "engine_runs w2 = engine_runs w1"
    using write_pk_runs [of c sdir "Some (str red)" red w1] k by simp
  show ?case
    using t k e1 e2 Cons.IH [of w2] by (simp split: sum.splits)
qed

lemma write_outputs_runs:
  "engine_runs (snd (write_outputs str c paramfile z ez w)) = engine_runs w"
proof (cases "getitem c ''DifferentTransferFunctions''")
  case (Inl e)
  then show ?thesis by (simp add: write_outputs_def)
next
  case (Inr dtf)
  define sdir where "sdir = fst (os_path_split paramfile)"
  obtain r1 w1 where t: "(if py_eq_num dtf 1 then write_transfer c sdir None z w else (Inr (), w))
      = (r1, w1)"
    by (cases "if py_eq_num dtf 1 then write_transfer c sdir None z w else (Inr (), w)") auto
  have e1: "engine_runs w1 = engine_runs w"
    using write_transfer_runs [of c sdir None z w] t by (auto split: if_splits)
  obtain r2 w2 where k: "write_pk c sdir None z w1 = (r2, w2)"
    by (cases "write_pk c sdir None z w1") auto
  have e2: "engine_runs w2 = engine_runs w1"
    using write_pk_runs [of c sdir None z w1] k by simp
  show ?thesis
    using Inr t k e1 e2 extra_outputs_runs [of str c sdir _ w2]
    by (simp add: write_outputs_def sdir_def [symmetric] Let_def split: sum.splits option.splits)
qed

text \<open>
  C9. Whenever a run that is given an external primordial spectrum file starts the solver,
  the parameters it hands over hold \<open>P_k_ini = "external_pk"\<close> and, under
  \<open>command\<close>, the pair of the strings \<open>"cat "\<close> and the file name: a tuple, neither run
  as a command nor replaced by what the file holds. The script itself never opens the
  file.
\<close>

theorem external_spectrum_command:
  "engine_runs (snd (make_class_power engine str rc paramfile (Some f) ez vb w)) = engine_runs w \<or>
   (\<exists>p. engine_runs (snd (make_class_power engine str rc paramfile (Some f) ez vb w))
          = engine_runs w @ [p] \<and>
        p ''P_k_ini'' = Some (PStr ''external_pk'') \<and>
        p ''command'' = Some (PTuple [PStr ''cat '', PStr f]))"
proof (cases "check_genic_config (os_path_exists w) rc")
  case (Inl e)
  then show ?thesis by (simp add: make_class_power_def)
next
  case chk: (Inr config0)
  show ?thesis
  proof (cases "solver_params config0 (Some f) ez vb")
    case (Inl e)
    then show ?thesis using chk by (simp add: make_class_power_def)
  next
    case (Inr r)
    obtain c p z where r: "r = (c, p, z)" by (cases r) auto
    have p: "p ''P_k_ini'' = Some (PStr ''external_pk'') \<and>
         p ''command'' = Some (PTuple [PStr ''cat '', PStr f])"
      using solver_params_external [of config0 f ez vb c p z] Inr r by simp
    have "engine_runs (snd (make_class_power engine str rc paramfile (Some f) ez vb w))
        = engine_runs w @ [p]"
      using chk Inr r
      by (simp add: make_class_power_def Let_def write_outputs_runs split: option.splits)
    with p show ?thesis by blast
  qed
qed

theorem external_spectrum_command_witness:
  "\<exists>p. engine_runs (snd external_run) = [p] \<and>
       p ''P_k_ini'' = Some (PStr ''external_pk'') \<and>
       p ''command'' = Some (PTuple [PStr ''cat '', PStr ''extpk.dat''])"
proof -
  have chk: "genic_checks (os_path_exists empty_world) sample_config = Inr ()"
    by (simp add: genic_checks_typed [OF typed_sample] mapped_sample_paths checks_sample_values
        os_path_exists_def empty_world_def)
  from run_typed [OF typed_sample validate_sample [symmetric] chk hubble_sq_sample_nz
      boxmpc_sample_nz, of engine_ok str_2f "''params.genic''" "Some ''extpk.dat''" None False]
  obtain q where
    r: "external_run = write_outputs str_2f (mapped_config sample_config) ''params.genic''
        (primary_redshift sample_config) None
        (empty_world\<lparr>engine_runs := engine_runs empty_world @ [q]\<rparr>)"
    by (auto simp: external_run_def engine_ok_def)
  have "engine_runs (snd external_run) = [q]"
    unfolding r by (simp add: write_outputs_runs empty_world_def)
  then show ?thesis
    using external_spectrum_command [of engine_ok str_2f sample_file "''params.genic''"
        "''extpk.dat''" None False empty_world]
    by (auto simp: external_run_def empty_world_def)
qed

end
